theory Spec2Isabelle
  imports Main "HOL-Library.Word" "HOL-Library.Monad_Syntax"
begin

unbundle bit_operations_syntax

section \<open>The Go library functions the program calls\<close>

text \<open>
  The program is one Go file. It calls \<open>strings.TrimLeft\<close>, \<open>strings.Split\<close>,
  \<open>time.Parse\<close>, \<open>Time.UTC\<close>, \<open>strconv.ParseFloat\<close>, \<open>os.Open\<close> and the XML decoder.
  The first four are modelled below, as far as the one call site of each reaches them;
  \<open>strconv.ParseFloat\<close>, \<open>os.Open\<close> and the XML decoder are parameters of the functions
  that call them. A Go \<open>string\<close> is a sequence of bytes, here a \<open>char list\<close>.
  A Go function returning \<open>(T, error)\<close> is a pair whose second component is
  \<open>None\<close> for \<open>nil\<close>; a library function returns \<open>error + T\<close>.
\<close>

datatype error =
    PathError string        \<comment> \<open>\<open>os.Open\<close> failed\<close>
  | SyntaxError string      \<comment> \<open>the XML decoder failed\<close>
  | ParseError string       \<comment> \<open>\<open>*time.ParseError\<close>, with the value that did not parse\<close>
  | NumError string         \<comment> \<open>\<open>*strconv.NumError\<close>, with the text that did not parse\<close>

text \<open>A \<open>float64\<close> is its IEEE-754 bit pattern; the constant \<open>0.0\<close> is the pattern 0.\<close>

type_synonym float64 = "64 word"

subsection \<open>Package strings\<close>

text \<open>\<open>strings.TrimLeft(s, cutset)\<close>: \<open>s\<close> without its leading bytes that are in \<open>cutset\<close>.\<close>

definition strings_TrimLeft :: "string \<Rightarrow> string \<Rightarrow> string" where
  "strings_TrimLeft s cutset = dropWhile (\<lambda>c. c \<in> set cutset) s"

text \<open>
  \<open>strings.Split(s, sep)\<close> for a separator of one byte: the substrings between the
  separators, empty ones included; a string without separator is returned whole,
  so the result is never empty.
\<close>

fun strings_Split :: "string \<Rightarrow> char \<Rightarrow> string list" where
  "strings_Split [] sep = [[]]"
| "strings_Split (c # s) sep =
     (if c = sep then [] # strings_Split s sep
      else (case strings_Split s sep of
              [] \<Rightarrow> [[c]]
            | p # ps \<Rightarrow> (c # p) # ps))"

subsection \<open>Package time\<close>

text \<open>
  A \<open>Location\<close> is UTC or a zone at a fixed number of seconds east of UTC. A \<open>Time\<close>
  is an instant (seconds since 1970-01-01T00:00:00Z and nanoseconds within the second)
  together with the location it is presented in. The host's \<open>time.Local\<close> is a
  parameter \<open>local\<close> of everything that could read it.
\<close>

datatype Location = UTC | FixedZone int

record Time =
  Unix :: int
  Nanosecond :: int
  Loc :: Location

fun zoneOffset :: "Location \<Rightarrow> int" where
  "zoneOffset UTC = 0"
| "zoneOffset (FixedZone off) = off"

text \<open>\<open>t.UTC()\<close>: the same instant, presented in UTC.\<close>

definition Time_UTC :: "Time \<Rightarrow> Time" where
  "Time_UTC t = t\<lparr>Loc := UTC\<rparr>"

definition isLeap :: "int \<Rightarrow> bool" where
  "isLeap year = (year mod 4 = 0 \<and> (year mod 100 \<noteq> 0 \<or> year mod 400 = 0))"

definition daysBefore :: "nat list" where
  "daysBefore = [0, 31, 59, 90, 120, 151, 181, 212, 243, 273, 304, 334, 365]"

definition daysIn :: "nat \<Rightarrow> int \<Rightarrow> nat" where
  "daysIn m year =
     (if m = 2 \<and> isLeap year then 29 else daysBefore ! m - daysBefore ! (m - 1))"

text \<open>Days from 1970-01-01 to the first of January of \<open>year\<close>.\<close>

definition daysSinceEpoch :: "int \<Rightarrow> int" where
  "daysSinceEpoch year =
     365 * (year - 1970)
       + ((year - 1) div 4 - (year - 1) div 100 + (year - 1) div 400) - 477"

text \<open>
  \<open>time.Date(year, month, day, hour, min, sec, nsec, loc)\<close> for fields in range (month
  1 to 12, day 1 to \<open>daysIn\<close>, hour below 24, minute and second below 60), which is how
  \<open>parse\<close> calls it: the wall clock reading is taken in \<open>loc\<close>, so the zone's offset is
  subtracted to get the instant.
\<close>

definition Date :: "int \<Rightarrow> nat \<Rightarrow> nat \<Rightarrow> nat \<Rightarrow> nat \<Rightarrow> nat \<Rightarrow> int \<Rightarrow> Location \<Rightarrow> Time" where
  "Date year month day hour minute sec nsec loc =
     (let d = daysSinceEpoch year + int (daysBefore ! (month - 1))
                + (if isLeap year \<and> 3 \<le> month then 1 else 0) + int (day - 1);
          secs = d * 86400 + int (hour * 3600 + minute * 60 + sec)
      in \<lparr>Unix = secs - zoneOffset loc, Nanosecond = nsec, Loc = loc\<rparr>)"

text \<open>The helpers of \<open>time.Parse\<close> (format.go).\<close>

definition isDigit :: "string \<Rightarrow> nat \<Rightarrow> bool" where
  "isDigit s i = (i < length s \<and> (48::nat) \<le> of_char (s ! i) \<and> (of_char (s ! i) :: nat) \<le> 57)"

definition digitVal :: "char \<Rightarrow> nat" where
  "digitVal c = of_char c - 48"

definition getnum :: "string \<Rightarrow> bool \<Rightarrow> (nat \<times> string) option" where
  "getnum s fixed =
     (if \<not> isDigit s 0 then None
      else if \<not> isDigit s 1 then
        (if fixed then None else Some (digitVal (s ! 0), drop 1 s))
      else Some (digitVal (s ! 0) * 10 + digitVal (s ! 1), drop 2 s))"

definition cutspace :: "string \<Rightarrow> string" where
  "cutspace s = dropWhile (\<lambda>c. c = CHR '' '') s"

function skip :: "string \<Rightarrow> string \<Rightarrow> string option" where
  "skip v [] = Some v"
| "skip v (p # prefix) =
     (if p = CHR '' '' then
        (if v \<noteq> [] \<and> hd v \<noteq> CHR '' '' then None
         else skip (cutspace v) (cutspace (p # prefix)))
      else if v = [] \<or> hd v \<noteq> p then None
      else skip (tl v) prefix)"
  by pat_completeness auto
termination
proof (relation "measure (\<lambda>(v, prefix). length prefix)")
  fix v :: string and p :: char and prefix :: string
  assume "p = CHR '' ''"
  then have "length (cutspace (p # prefix)) \<le> length prefix"
    by (simp add: cutspace_def length_dropWhile_le)
  then show "((cutspace v, cutspace (p # prefix)), (v, p # prefix))
               \<in> measure (\<lambda>(v, prefix). length prefix)"
    by simp
qed simp_all

text \<open>\<open>match\<close> compares two strings of one length, ignoring the case of letters.\<close>

fun match :: "string \<Rightarrow> string \<Rightarrow> bool" where
  "match (c1 # s1) (c2 # s2) =
     ((c1 = c2 \<or>
       ((of_char c1 :: nat) OR 32) = ((of_char c2 :: nat) OR 32)
         \<and> (97::nat) \<le> (of_char c1 OR 32) \<and> ((of_char c1 :: nat) OR 32) \<le> 122)
      \<and> match s1 s2)"
| "match s1 s2 = True"

fun lookup_from :: "nat \<Rightarrow> string list \<Rightarrow> string \<Rightarrow> (nat \<times> string) option" where
  "lookup_from i [] val = None"
| "lookup_from i (v # tab) val =
     (if length v \<le> length val \<and> match (take (length v) val) v
      then Some (i, drop (length v) val)
      else lookup_from (Suc i) tab val)"

definition lookup :: "string list \<Rightarrow> string \<Rightarrow> (nat \<times> string) option" where
  "lookup tab val = lookup_from 0 tab val"

definition shortMonthNames :: "string list" where
  "shortMonthNames = [''Jan'', ''Feb'', ''Mar'', ''Apr'', ''May'', ''Jun'',
                      ''Jul'', ''Aug'', ''Sep'', ''Oct'', ''Nov'', ''Dec'']"

text \<open>
  \<open>leadingInt\<close> reads the leading decimal digits; its overflow error needs more than
  eighteen digits and \<open>parse\<close> passes at most nine. \<open>atoi\<close> accepts a sign and then
  wants digits up to the end.
\<close>

fun leadingInt :: "nat \<Rightarrow> string \<Rightarrow> nat \<times> string" where
  "leadingInt x [] = (x, [])"
| "leadingInt x (c # s) =
     (if isDigit (c # s) 0 then leadingInt (x * 10 + digitVal c) s else (x, c # s))"

definition atoi :: "string \<Rightarrow> int option" where
  "atoi s =
     (let signed = (s \<noteq> [] \<and> (hd s = CHR ''-'' \<or> hd s = CHR ''+''));
          neg = (signed \<and> hd s = CHR ''-'');
          (q, rem) = leadingInt 0 (if signed then tl s else s)
      in if rem \<noteq> [] then None else Some (if neg then - int q else int q))"

definition commaOrPeriod :: "char \<Rightarrow> bool" where
  "commaOrPeriod c = (c = CHR ''.'' \<or> c = CHR '','')"

definition parseNanoseconds :: "string \<Rightarrow> nat \<Rightarrow> int option" where
  "parseNanoseconds val nbytes =
     (if val = [] \<or> \<not> commaOrPeriod (hd val) then None
      else
        (let val' = (if 10 < nbytes then take 10 val else val);
             nbytes' = (if 10 < nbytes then 10 else nbytes)
         in case atoi (take (nbytes' - 1) (drop 1 val')) of
              None \<Rightarrow> None
            | Some ns \<Rightarrow> if ns < 0 then None else Some (ns * 10 ^ (10 - nbytes'))))"

text \<open>The two-digit year of the layout element \<open>06\<close>.\<close>

definition stdYear :: "string \<Rightarrow> (int \<times> string) option" where
  "stdYear v =
     (if length v < 2 then None
      else case atoi (take 2 v) of
             None \<Rightarrow> None
           | Some y \<Rightarrow> Some (if 69 \<le> y then y + 1900 else y + 2000, drop 2 v))"

text \<open>
  The seconds of the layout element \<open>05\<close>, with the fraction that \<open>parse\<close> accepts after
  them although the layout has none.
\<close>

definition stdZeroSecond :: "string \<Rightarrow> (nat \<times> int \<times> string) option" where
  "stdZeroSecond v =
     (case getnum v True of
        None \<Rightarrow> None
      | Some (sec, v1) \<Rightarrow>
          if 60 \<le> sec then None
          else if 2 \<le> length v1 \<and> commaOrPeriod (v1 ! 0) \<and> isDigit v1 1 then
            (let n = 2 + length (takeWhile (\<lambda>c. isDigit [c] 0) (drop 2 v1))
             in case parseNanoseconds v1 n of
                  None \<Rightarrow> None
                | Some nsec \<Rightarrow> Some (sec, nsec, drop n v1))
          else Some (sec, 0, v1))"

text \<open>
  \<open>parse(layout, value, defaultLocation, local)\<close> for the layout
  \<open>"02-Jan-06 15:04:05"\<close>, whose elements are, in order: \<open>02\<close> (day, two digits), \<open>-\<close>,
  \<open>Jan\<close> (month name), \<open>-\<close>, \<open>06\<close> (year), a space, \<open>15\<close> (hour, one or two digits),
  \<open>:\<close>, \<open>04\<close> (minute, two digits), \<open>:\<close>, \<open>05\<close> (second, two digits). The layout has
  no zone element, so the time is built in \<open>defaultLocation\<close> and \<open>local\<close> is not
  consulted. Every failure is a \<open>*time.ParseError\<close>. The model follows the current Go
  library; older releases differ only on texts outside the format \<open>DD-Mon-YY HH:MM:SS\<close>
  (a comma before a fraction of a second, the day \<open>00\<close>).
\<close>

definition parse_fields :: "string \<Rightarrow> (int \<times> nat \<times> nat \<times> nat \<times> nat \<times> nat \<times> int) option" where
  "parse_fields val =
     do {
       (day, v) \<leftarrow> getnum val True;
       v \<leftarrow> skip v ''-'';
       (m, v) \<leftarrow> lookup shortMonthNames v;
       v \<leftarrow> skip v ''-'';
       (year, v) \<leftarrow> stdYear v;
       v \<leftarrow> skip v '' '';
       (hour, v) \<leftarrow> getnum v False;
       if 24 \<le> hour then None else
       do {
         v \<leftarrow> skip v '':'';
         (minute, v) \<leftarrow> getnum v True;
         if 60 \<le> minute then None else
         do {
           v \<leftarrow> skip v '':'';
           (sec, nsec, v) \<leftarrow> stdZeroSecond v;
           if v \<noteq> [] then None
           else if day < 1 \<or> daysIn (m + 1) year < day then None
           else Some (year, m + 1, day, hour, minute, sec, nsec)
         }
       }
     }"

definition parse :: "string \<Rightarrow> Location \<Rightarrow> Location \<Rightarrow> error + Time" where
  "parse val defaultLocation local =
     (case parse_fields val of
        None \<Rightarrow> Inl (ParseError val)
      | Some (year, month, day, hour, minute, sec, nsec) \<Rightarrow>
          Inr (Date year month day hour minute sec nsec defaultLocation))"

text \<open>\<open>time.Parse("02-Jan-06 15:04:05", value)\<close> on a host whose \<open>time.Local\<close> is \<open>local\<close>.\<close>

definition time_Parse :: "Location \<Rightarrow> string \<Rightarrow> error + Time" where
  "time_Parse local val = parse val UTC local"

section \<open>The data model\<close>

record DataSource_t =
  Name :: string
  NumItems :: string
  Interpolation :: string

record Data_t =
  DateFormat :: string
  Value :: "string list"

record HilltopMeasurement =
  SiteName :: string
  DataSource :: DataSource_t
  Data :: Data_t

record Hilltop =
  XMLName :: string
  Agency :: string
  Measurement :: "HilltopMeasurement list"

record HilltopValue =
  Timestamp :: Time
  Reading :: float64

text \<open>\<open>msg.Observation\<close>, with the fields the program sets.\<close>

record Observation =
  NetworkID :: string
  SiteID :: string
  TypeID :: string
  MethodID :: string
  DateTime :: Time
  Value' :: float64
  Error :: float64

record HilltopSites =
  Sites :: "string \<rightharpoonup> string"

definition HilltopUnits :: "string \<rightharpoonup> string" where
  "HilltopUnits = map_of
     [(''Air Temperature'', ''t''),
      (''Wind Chill'', ''wc''),
      (''Relative Humidity'', ''rh''),
      (''Rainfall'', ''rn''),
      (''Barometric Pressure'', ''ap''),
      (''Wind Direction'', ''wdir''),
      (''Max Gust'', ''wg''),
      (''Average Wind'', ''wm'')]"

section \<open>The Value Extractor: \<open>HilltopMeasurement.Values\<close>\<close>

text \<open>
  The loop over \<open>m.Data.Value\<close>, with the slice \<open>values\<close> built so far. A line with
  more than two parts is parsed; either parse failing returns the slice built so far
  together with the error.
\<close>

fun Values_loop ::
  "Location \<Rightarrow> (string \<Rightarrow> error + float64) \<Rightarrow> string \<Rightarrow> string list \<Rightarrow> HilltopValue list
     \<Rightarrow> HilltopValue list \<times> error option" where
  "Values_loop local ParseFloat dateFormat [] values = (values, None)"
| "Values_loop local ParseFloat dateFormat (v # vs) values =
     (let parts = strings_Split (strings_TrimLeft v '' '') (CHR '' '') in
      if 2 < length parts then
        (case time_Parse local (parts ! 0 @ '' '' @ parts ! 1) of
           Inl err \<Rightarrow> (values, Some err)
         | Inr t0 \<Rightarrow>
             (let t = (if dateFormat = ''UTC'' then Time_UTC t0 else t0) in
              case ParseFloat (parts ! 2) of
                Inl err \<Rightarrow> (values, Some err)
              | Inr r \<Rightarrow>
                  Values_loop local ParseFloat dateFormat vs
                    (values @ [\<lparr>Timestamp = t, Reading = r\<rparr>])))
      else Values_loop local ParseFloat dateFormat vs values)"

definition Values ::
  "Location \<Rightarrow> (string \<Rightarrow> error + float64) \<Rightarrow> HilltopMeasurement
     \<Rightarrow> HilltopValue list \<times> error option" where
  "Values local ParseFloat m =
     Values_loop local ParseFloat (DateFormat (Data m)) (Value (Data m)) []"

section \<open>The Observation Assembler: \<open>Hilltop.Observations\<close>\<close>

definition mkObservation :: "string \<Rightarrow> string \<Rightarrow> string \<Rightarrow> string \<Rightarrow> HilltopValue \<Rightarrow> Observation" where
  "mkObservation network s t method v =
     \<lparr>NetworkID = network, SiteID = s, TypeID = t, MethodID = method,
      DateTime = Timestamp v, Value' = Reading v, Error = 0\<rparr>"

text \<open>
  The loop over \<open>h.Measurement\<close>, with the slice \<open>msgs\<close> built so far. The two
  \<open>continue\<close> branches only log; an error of \<open>Values\<close> returns \<open>msgs\<close> as it stands
  together with the error.
\<close>

fun Observations_loop ::
  "Location \<Rightarrow> (string \<Rightarrow> error + float64) \<Rightarrow> HilltopSites \<Rightarrow> string \<Rightarrow> string
     \<Rightarrow> HilltopMeasurement list \<Rightarrow> Observation list \<Rightarrow> Observation list \<times> error option" where
  "Observations_loop local ParseFloat sites network method [] msgs = (msgs, None)"
| "Observations_loop local ParseFloat sites network method (m # ms) msgs =
     (case Sites sites (SiteName m) of
        None \<Rightarrow> Observations_loop local ParseFloat sites network method ms msgs
      | Some s \<Rightarrow>
          (case HilltopUnits (Name (DataSource m)) of
             None \<Rightarrow> Observations_loop local ParseFloat sites network method ms msgs
           | Some t \<Rightarrow>
               (case Values local ParseFloat m of
                  (values, Some err) \<Rightarrow> (msgs, Some err)
                | (values, None) \<Rightarrow>
                    Observations_loop local ParseFloat sites network method ms
                      (msgs @ map (mkObservation network s t method) values))))"

definition Observations ::
  "Location \<Rightarrow> (string \<Rightarrow> error + float64) \<Rightarrow> Hilltop \<Rightarrow> HilltopSites \<Rightarrow> string \<Rightarrow> string
     \<Rightarrow> Observation list \<times> error option" where
  "Observations local ParseFloat h sites network method =
     Observations_loop local ParseFloat sites network method (Measurement h) []"

section \<open>The Document Decoder: \<open>DecodeHilltopFile\<close>\<close>

text \<open>
  \<open>os_Open\<close> opens a file by name and \<open>xml_Decode\<close> is \<open>d.Decode(&h)\<close> on the opened
  file, which reads it and fills in the document. The result is the pair
  \<open>(*Hilltop, error)\<close>, \<open>None\<close> for a \<open>nil\<close> component.
\<close>

definition DecodeHilltopFile ::
  "(string \<Rightarrow> error + 'f) \<Rightarrow> ('f \<Rightarrow> error + Hilltop) \<Rightarrow> string \<Rightarrow> Hilltop option \<times> error option" where
  "DecodeHilltopFile os_Open xml_Decode file =
     (case os_Open file of
        Inl err \<Rightarrow> (None, None)
      | Inr xmlFile \<Rightarrow>
          (case xml_Decode xmlFile of
             Inl err \<Rightarrow> (None, Some err)
           | Inr h \<Rightarrow> (Some h, None)))"

section \<open>Notions used to state the properties\<close>

text \<open>
  One iteration of the loop of \<open>Values\<close>: the line is skipped, or it stops the
  extraction with an error, or it gives a reading.
\<close>

datatype line_result = Skipped | Failed error | Parsed HilltopValue

definition tokens :: "string \<Rightarrow> string list" where
  "tokens v = strings_Split (strings_TrimLeft v '' '') (CHR '' '')"

text \<open>
  The tokens of a line as claim C5 words them: leading whitespace of every kind (space,
  tab, line feed, vertical tab, form feed, carriage return) is stripped before the
  line is split at every single space. \<open>tokens\<close> above is what the program computes.
\<close>

definition isWhitespace :: "char \<Rightarrow> bool" where
  "isWhitespace c = (c \<in> set [CHR '' '', CHR 0x09, CHR 0x0A, CHR 0x0B, CHR 0x0C, CHR 0x0D])"

definition tokens_after_whitespace :: "string \<Rightarrow> string list" where
  "tokens_after_whitespace v = strings_Split (dropWhile isWhitespace v) (CHR '' '')"

definition Values_line ::
  "Location \<Rightarrow> (string \<Rightarrow> error + float64) \<Rightarrow> string \<Rightarrow> string \<Rightarrow> line_result" where
  "Values_line local ParseFloat dateFormat v =
     (if 2 < length (tokens v) then
        (case time_Parse local (tokens v ! 0 @ '' '' @ tokens v ! 1) of
           Inl err \<Rightarrow> Failed err
         | Inr t0 \<Rightarrow>
             (case ParseFloat (tokens v ! 2) of
                Inl err \<Rightarrow> Failed err
              | Inr r \<Rightarrow>
                  Parsed \<lparr>Timestamp = (if dateFormat = ''UTC'' then Time_UTC t0 else t0),
                          Reading = r\<rparr>))
      else Skipped)"

text \<open>
  A readable value line has at least three tokens, its first two tokens joined by a
  space parse as a time and its third token parses as a number; \<open>reading_of\<close> is the
  reading it then gives.
\<close>

definition readable :: "Location \<Rightarrow> (string \<Rightarrow> error + float64) \<Rightarrow> string \<Rightarrow> bool" where
  "readable local ParseFloat v =
     (2 < length (tokens v)
      \<and> \<not> isl (time_Parse local (tokens v ! 0 @ '' '' @ tokens v ! 1))
      \<and> \<not> isl (ParseFloat (tokens v ! 2)))"

definition reading_of ::
  "Location \<Rightarrow> (string \<Rightarrow> error + float64) \<Rightarrow> string \<Rightarrow> string \<Rightarrow> HilltopValue" where
  "reading_of local ParseFloat dateFormat v =
     (let t0 = projr (time_Parse local (tokens v ! 0 @ '' '' @ tokens v ! 1))
      in \<lparr>Timestamp = (if dateFormat = ''UTC'' then Time_UTC t0 else t0),
          Reading = projr (ParseFloat (tokens v ! 2))\<rparr>)"

text \<open>
  What one measurement contributes to \<open>Observations\<close>: nothing when a lookup fails,
  the error of \<open>Values\<close>, or one observation for each reading.
\<close>

definition measurement_obs ::
  "Location \<Rightarrow> (string \<Rightarrow> error + float64) \<Rightarrow> HilltopSites \<Rightarrow> string \<Rightarrow> string
     \<Rightarrow> HilltopMeasurement \<Rightarrow> Observation list \<times> error option" where
  "measurement_obs local ParseFloat sites network method m =
     (case Sites sites (SiteName m) of
        None \<Rightarrow> ([], None)
      | Some s \<Rightarrow>
          (case HilltopUnits (Name (DataSource m)) of
             None \<Rightarrow> ([], None)
           | Some t \<Rightarrow>
               (case Values local ParseFloat m of
                  (values, Some err) \<Rightarrow> ([], Some err)
                | (values, None) \<Rightarrow> (map (mkObservation network s t method) values, None))))"

text \<open>
  The text \<open>DD-Mon-YY HH:MM:SS\<close> of a date and time of day, and the dates and times
  that have such a text: the two-digit year stands for 1969 to 2068.
\<close>

definition fmt2 :: "nat \<Rightarrow> string" where
  "fmt2 n = [char_of (48 + n div 10), char_of (48 + n mod 10)]"

definition dateText :: "int \<Rightarrow> nat \<Rightarrow> nat \<Rightarrow> nat \<Rightarrow> nat \<Rightarrow> nat \<Rightarrow> string" where
  "dateText year month day hour minute sec =
     fmt2 day @ ''-'' @ shortMonthNames ! (month - 1) @ ''-'' @ fmt2 (nat (year mod 100))
       @ '' '' @ fmt2 hour @ '':'' @ fmt2 minute @ '':'' @ fmt2 sec"

definition validDate :: "int \<Rightarrow> nat \<Rightarrow> nat \<Rightarrow> nat \<Rightarrow> nat \<Rightarrow> nat \<Rightarrow> bool" where
  "validDate year month day hour minute sec =
     (1969 \<le> year \<and> year \<le> 2068 \<and> 1 \<le> month \<and> month \<le> 12
      \<and> 1 \<le> day \<and> day \<le> daysIn month year \<and> hour < 24 \<and> minute < 60 \<and> sec < 60)"

text \<open>
  The examples below need \<open>strconv.ParseFloat\<close> on three texts only: \<open>2.300000\<close> and
  \<open>4.5\<close>, which it reads as the doubles with the bit patterns given, and
  \<open>not-a-number\<close>, which it rejects. \<open>exampleParseFloat\<close> agrees with it on these.
\<close>

definition exampleParseFloat :: "string \<Rightarrow> error + float64" where
  "exampleParseFloat s =
     (if s = ''2.300000'' then Inr 0x4002666666666666
      else if s = ''4.5'' then Inr 0x4012000000000000
      else Inl (NumError s))"

definition exampleMeasurement :: "string \<Rightarrow> string \<Rightarrow> string \<Rightarrow> string list \<Rightarrow> HilltopMeasurement" where
  "exampleMeasurement site name dateFormat lines =
     \<lparr>SiteName = site,
      DataSource = \<lparr>Name = name, NumItems = ''1'', Interpolation = ''Instantaneous''\<rparr>,
      Data = \<lparr>DateFormat = dateFormat, Value = lines\<rparr>\<rparr>"

definition exampleSites :: HilltopSites where
  "exampleSites = \<lparr>Sites = [''Place'' \<mapsto> ''PLACE_CODE'']\<rparr>"

text \<open>The instant of a \<open>Time\<close>, whatever location it is presented in.\<close>

definition instant :: "Time \<Rightarrow> int \<times> int" where
  "instant t = (Unix t, Nanosecond t)"

text \<open>
  The observations of a measurement whose lookups succeed and whose lines are all
  readable: one for each line, in the order of the lines.
\<close>

definition observations_of ::
  "Location \<Rightarrow> (string \<Rightarrow> error + float64) \<Rightarrow> HilltopSites \<Rightarrow> string \<Rightarrow> string
     \<Rightarrow> HilltopMeasurement \<Rightarrow> Observation list" where
  "observations_of local ParseFloat sites network method m =
     map (\<lambda>v. mkObservation network (the (Sites sites (SiteName m)))
                 (the (HilltopUnits (Name (DataSource m)))) method
                 (reading_of local ParseFloat (DateFormat (Data m)) v))
         (Value (Data m))"

definition exampleDocument :: "HilltopMeasurement list \<Rightarrow> Hilltop" where
  "exampleDocument ms = \<lparr>XMLName = ''Hilltop'', Agency = ''A'', Measurement = ms\<rparr>"

section \<open>The two loops, one iteration at a time\<close>

text \<open>
  An iteration of either loop depends on the slice built so far only by appending to
  it, so a loop over a list that is split in two runs the second part from where the
  first part stopped.
\<close>

lemma Values_loop_Cons:
  "Values_loop l pf df (v # vs) acc =
     (case Values_line l pf df v of
        Skipped \<Rightarrow> Values_loop l pf df vs acc
      | Failed e \<Rightarrow> (acc, Some e)
      | Parsed x \<Rightarrow> Values_loop l pf df vs (acc @ [x]))"
  by (simp add: Values_line_def tokens_def Let_def split: sum.splits)

lemma Values_loop_acc:
  "Values_loop l pf df vs acc =
     (acc @ fst (Values_loop l pf df vs []), snd (Values_loop l pf df vs []))"
proof (induction vs arbitrary: acc)
  case Nil
  show ?case by simp
next
  case (Cons v vs)
  show ?case
  proof (cases "Values_line l pf df v")
    case Skipped
    then show ?thesis using Cons.IH [of acc] by (simp only: Values_loop_Cons line_result.case)
  next
    case (Failed e)
    then show ?thesis by (simp only: Values_loop_Cons line_result.case) simp
  next
    case (Parsed x)
    then show ?thesis
      using Cons.IH [of "acc @ [x]"] Cons.IH [of "[] @ [x]"]
      by (simp only: Values_loop_Cons line_result.case) simp
  qed
qed

lemma Values_loop_append:
  "Values_loop l pf df (xs @ ys) acc =
     (case Values_loop l pf df xs acc of
        (r, None) \<Rightarrow> Values_loop l pf df ys r
      | (r, Some e) \<Rightarrow> (r, Some e))"
proof (induction xs arbitrary: acc)
  case Nil
  show ?case by simp
next
  case (Cons v xs)
  show ?case
    using Cons.IH
    by (cases "Values_line l pf df v")
      (simp_all only: append_Cons Values_loop_Cons line_result.case prod.case option.case)
qed

lemma Values_lines:
  "Value (Data m) = ls \<Longrightarrow> Values l pf m = Values_loop l pf (DateFormat (Data m)) ls []"
  by (simp add: Values_def)

lemma Values_append:
  "Values l pf (m\<lparr>Data := (Data m)\<lparr>Value := xs @ ys\<rparr>\<rparr>) =
     (case Values l pf (m\<lparr>Data := (Data m)\<lparr>Value := xs\<rparr>\<rparr>) of
        (r, None) \<Rightarrow> Values_loop l pf (DateFormat (Data m)) ys r
      | (r, Some e) \<Rightarrow> (r, Some e))"
  by (simp add: Values_def Values_loop_append)

lemma Observations_loop_Cons:
  "Observations_loop l pf sites network method (m # ms) msgs =
     (case measurement_obs l pf sites network method m of
        (os, None) \<Rightarrow> Observations_loop l pf sites network method ms (msgs @ os)
      | (os, Some e) \<Rightarrow> (msgs, Some e))"
  by (simp add: measurement_obs_def split: option.splits prod.splits)

lemma Observations_loop_acc:
  "Observations_loop l pf sites network method ms msgs =
     (msgs @ fst (Observations_loop l pf sites network method ms []),
      snd (Observations_loop l pf sites network method ms []))"
proof (induction ms arbitrary: msgs)
  case Nil
  show ?case by simp
next
  case (Cons m ms)
  obtain os e where mo: "measurement_obs l pf sites network method m = (os, e)"
    by (cases "measurement_obs l pf sites network method m")
  show ?case
  proof (cases e)
    case None
    with mo show ?thesis
      using Cons.IH [of "msgs @ os"] Cons.IH [of "[] @ os"]
      by (simp only: Observations_loop_Cons prod.case option.case) simp
  next
    case (Some err)
    with mo show ?thesis by (simp only: Observations_loop_Cons prod.case option.case) simp
  qed
qed

lemma Observations_loop_append:
  "Observations_loop l pf sites network method (xs @ ys) msgs =
     (case Observations_loop l pf sites network method xs msgs of
        (r, None) \<Rightarrow> Observations_loop l pf sites network method ys r
      | (r, Some e) \<Rightarrow> (r, Some e))"
proof (induction xs arbitrary: msgs)
  case Nil
  show ?case by simp
next
  case (Cons m xs)
  obtain os e where mo: "measurement_obs l pf sites network method m = (os, e)"
    by (cases "measurement_obs l pf sites network method m")
  show ?case
    using Cons.IH mo
    by (cases e) (simp_all only: append_Cons Observations_loop_Cons prod.case option.case)
qed

section \<open>The time text and back\<close>

text \<open>
  \<open>time.Parse\<close> reads the text of a valid date and time back as that date and time, in
  UTC. It never consults the host's local zone, and the time it returns is presented in
  UTC.
\<close>

lemma of_char_digit: "k < 10 \<Longrightarrow> (of_char (char_of (48 + k)) :: nat) = 48 + k"
  by simp

lemma digit_not_sign:
  "(k::nat) < 10 \<Longrightarrow> char_of (48 + k) \<noteq> CHR ''-'' \<and> char_of (48 + k) \<noteq> CHR ''+''
               \<and> char_of (48 + k) \<noteq> CHR '' ''"
proof -
  assume k: "k < 10"
  have "(of_char (char_of (48 + k)) :: nat) \<noteq> of_char CHR ''-''"
    and "(of_char (char_of (48 + k)) :: nat) \<noteq> of_char CHR ''+''"
    and "(of_char (char_of (48 + k)) :: nat) \<noteq> of_char CHR '' ''"
    using k by (simp_all only: of_char_digit) simp_all
  then show ?thesis by metis
qed

lemma getnum_fmt2: "n < 100 \<Longrightarrow> getnum (fmt2 n @ rest) fixed = Some (n, rest)"
proof -
  assume n: "n < 100"
  then have d: "n div 10 < 10" "n mod 10 < 10" by simp_all
  show ?thesis
    using d by (simp add: getnum_def fmt2_def isDigit_def digitVal_def)
qed

lemma cutspace_space: "cutspace (CHR '' '' # s) = cutspace s" "cutspace [] = []"
  by (simp_all add: cutspace_def)

lemma cutspace_fmt2: "n < 100 \<Longrightarrow> cutspace (fmt2 n @ rest) = fmt2 n @ rest"
  using digit_not_sign [of "n div 10"] by (simp add: cutspace_def fmt2_def)

lemma skip_space_fmt2: "n < 100 \<Longrightarrow> skip (CHR '' '' # fmt2 n @ rest) '' '' = Some (fmt2 n @ rest)"
  by (simp add: cutspace_space cutspace_fmt2)

lemma lookup_month:
  assumes "1 \<le> mo" and "mo \<le> 12"
  shows "lookup shortMonthNames (shortMonthNames ! (mo - 1) @ rest) = Some (mo - 1, rest)"
proof -
  from assms have "mo \<in> {1, 2, 3, 4, 5, 6, 7, 8, 9, 10, 11, 12}" by simp arith
  then show ?thesis
    by (elim insertE emptyE) (simp_all add: lookup_def shortMonthNames_def)
qed

lemma atoi_fmt2: "k < 100 \<Longrightarrow> atoi (fmt2 k) = Some (int k)"
proof -
  assume k: "k < 100"
  then have d: "k div 10 < 10" "k mod 10 < 10" by simp_all
  show ?thesis
    using d digit_not_sign [OF d(1)]
    by (simp add: atoi_def fmt2_def isDigit_def digitVal_def)
qed

lemma stdYear_fmt2:
  assumes "1969 \<le> y" and "y \<le> 2068"
  shows "stdYear (fmt2 (nat (y mod 100)) @ rest) = Some (y, rest)"
proof -
  have k: "nat (y mod 100) < 100" by simp
  have "take 2 (fmt2 (nat (y mod 100)) @ rest) = fmt2 (nat (y mod 100))"
    and "drop 2 (fmt2 (nat (y mod 100)) @ rest) = rest"
    and "\<not> length (fmt2 (nat (y mod 100)) @ rest) < 2"
    by (simp_all add: fmt2_def)
  moreover have "(if 69 \<le> int (nat (y mod 100)) then int (nat (y mod 100)) + 1900
                  else int (nat (y mod 100)) + 2000) = y"
  proof -
    have "y mod 100 = (if y < 2000 then y - 1900 else y - 2000)"
      using assms by presburger
    then show ?thesis using assms by simp
  qed
  ultimately show ?thesis
    by (simp only: stdYear_def atoi_fmt2 [OF k] option.case if_False)
qed

lemma stdZeroSecond_fmt2: "s < 60 \<Longrightarrow> stdZeroSecond (fmt2 s) = Some (s, 0, [])"
  using getnum_fmt2 [of s "[]" True] by (simp add: stdZeroSecond_def)

lemma parse_fields_dateText:
  assumes "validDate year month day hour minute sec"
  shows "parse_fields (dateText year month day hour minute sec)
           = Some (year, month, day, hour, minute, sec, 0)"
proof -
  from assms have r: "1969 \<le> year" "year \<le> 2068" "1 \<le> month" "month \<le> 12" "1 \<le> day"
      "day \<le> daysIn month year" "hour < 24" "minute < 60" "sec < 60"
    by (simp_all add: validDate_def)
  have "daysIn month year \<le> 31"
    using r(3,4) by (auto simp: daysIn_def daysBefore_def nth_Cons' )
  with r have lt: "day < 100" "hour < 100" "minute < 100" by simp_all
  show ?thesis
    using r
    by (simp add: parse_fields_def dateText_def getnum_fmt2 lt lookup_month [unfolded One_nat_def]
          stdYear_fmt2 cutspace_space cutspace_fmt2 stdZeroSecond_fmt2)
qed

lemma time_Parse_dateText:
  "validDate year month day hour minute sec \<Longrightarrow>
     time_Parse l (dateText year month day hour minute sec)
       = Inr (Date year month day hour minute sec 0 UTC)"
  by (simp add: time_Parse_def parse_def parse_fields_dateText)

lemma time_Parse_local: "time_Parse l1 v = time_Parse l2 v"
  by (simp add: time_Parse_def parse_def)

lemma time_Parse_UTC: "time_Parse l v = Inr t \<Longrightarrow> Loc t = UTC"
  by (auto simp: time_Parse_def parse_def Date_def Let_def split: option.splits)

lemma Values_local: "Values l1 pf m = Values l2 pf m"
proof -
  have "Values_line l1 pf df v = Values_line l2 pf df v" for df v
    by (simp only: Values_line_def time_Parse_local [of l1 _ l2])
  then have "Values_loop l1 pf df vs acc = Values_loop l2 pf df vs acc" for df vs acc
    by (induction vs arbitrary: acc) (simp_all only: Values_loop.simps(1) Values_loop_Cons)
  then show ?thesis by (simp only: Values_def)
qed

lemma Values_line_dateText:
  assumes "tokens v = p0 # p1 # p2 # rest"
    and "p0 @ '' '' @ p1 = dateText year month day hour minute sec"
    and "validDate year month day hour minute sec"
    and "pf p2 = Inr r"
  shows "Values_line l pf df v
           = Parsed \<lparr>Timestamp = Date year month day hour minute sec 0 UTC, Reading = r\<rparr>"
proof -
  have "time_Parse l (tokens v ! 0 @ '' '' @ tokens v ! 1)
          = Inr (Date year month day hour minute sec 0 UTC)"
    using assms(1,2) time_Parse_dateText [OF assms(3), of l] by simp
  moreover have "Time_UTC (Date year month day hour minute sec 0 UTC)
                   = Date year month day hour minute sec 0 UTC"
    by (simp add: Time_UTC_def Date_def Let_def)
  ultimately show ?thesis
    using assms(1,4) by (simp add: Values_line_def)
qed

lemma Values_reading_at:
  assumes "Value (Data m) = xs @ v # ys"
    and "Values l pf (m\<lparr>Data := (Data m)\<lparr>Value := xs\<rparr>\<rparr>) = (vs1, None)"
    and "Values_line l pf (DateFormat (Data m)) v = Parsed x"
  shows "fst (Values l pf m) ! length vs1 = x \<and> length vs1 < length (fst (Values l pf m))"
proof -
  from assms(2) have "Values_loop l pf (DateFormat (Data m)) xs [] = (vs1, None)"
    by (simp add: Values_def)
  then have "Values_loop l pf (DateFormat (Data m)) (xs @ v # ys) []
               = Values_loop l pf (DateFormat (Data m)) ys (vs1 @ [x])"
    using assms(3)
    by (simp only: Values_loop_append Values_loop_Cons prod.case option.case line_result.case)
  then have "fst (Values l pf m)
               = (vs1 @ [x]) @ fst (Values_loop l pf (DateFormat (Data m)) ys [])"
    using assms(1) Values_loop_acc [of l pf "DateFormat (Data m)" ys "vs1 @ [x]"]
    by (simp add: Values_def)
  then show ?thesis by (simp add: nth_append)
qed

section \<open>The examples, evaluated\<close>

lemmas parse_eval =
  time_Parse_def parse_def parse_fields_def getnum_def isDigit_def digitVal_def lookup_def
  shortMonthNames_def stdYear_def atoi_def stdZeroSecond_def Date_def daysIn_def isLeap_def
  daysBefore_def daysSinceEpoch_def commaOrPeriod_def cutspace_def

lemma example_time:
  "time_Parse l ''27-May-15 21:30:00'' = Inr \<lparr>Unix = 1432762200, Nanosecond = 0, Loc = UTC\<rparr>"
  by (simp add: parse_eval)

lemma example_bad_time:
  "time_Parse l ''27-Foo-15 21:30:00'' = Inl (ParseError ''27-Foo-15 21:30:00'')"
  by (simp add: parse_eval)

lemma example_tab_time:
  "time_Parse l (CHR 0x09 # ''27-May-15 21:30:00'') = Inl (ParseError (CHR 0x09 # ''27-May-15 21:30:00''))"
  by (simp add: parse_eval)

lemma example_tokens:
  "tokens '' 27-May-15 21:30:00 2.300000'' = [''27-May-15'', ''21:30:00'', ''2.300000'']"
  "tokens ''27-May-15 21:30:00 4.5'' = [''27-May-15'', ''21:30:00'', ''4.5'']"
  "tokens ''27-May-15 21:30:00 not-a-number'' = [''27-May-15'', ''21:30:00'', ''not-a-number'']"
  by (simp_all add: tokens_def strings_TrimLeft_def)

lemma example_more_tokens:
  "tokens ''   '' = [[]]"
  "tokens ''27-Foo-15 21:30:00 2.300000'' = [''27-Foo-15'', ''21:30:00'', ''2.300000'']"
  by (simp_all add: tokens_def strings_TrimLeft_def)

lemma example_tab_tokens:
  "tokens (CHR 0x09 # ''27-May-15 21:30:00 2.300000'') = [CHR 0x09 # ''27-May-15'', ''21:30:00'', ''2.300000'']"
  by (simp add: tokens_def strings_TrimLeft_def)

lemma example_line:
  "Values_line l exampleParseFloat df '' 27-May-15 21:30:00 2.300000''
     = Parsed \<lparr>Timestamp = \<lparr>Unix = 1432762200, Nanosecond = 0, Loc = UTC\<rparr>,
               Reading = 0x4002666666666666\<rparr>"
  "Values_line l exampleParseFloat df ''27-May-15 21:30:00 4.5''
     = Parsed \<lparr>Timestamp = \<lparr>Unix = 1432762200, Nanosecond = 0, Loc = UTC\<rparr>,
               Reading = 0x4012000000000000\<rparr>"
  "Values_line l exampleParseFloat df ''27-May-15 21:30:00 not-a-number''
     = Failed (NumError ''not-a-number'')"
  by (simp_all add: Values_line_def example_tokens example_time exampleParseFloat_def Time_UTC_def)

lemma example_tab_line:
  "Values_line l exampleParseFloat df (CHR 0x09 # ''27-May-15 21:30:00 2.300000'')
     = Failed (ParseError (CHR 0x09 # ''27-May-15 21:30:00''))"
  using example_tab_time [of l] by (simp add: Values_line_def example_tab_tokens)

lemma exampleMeasurement_sel:
  "SiteName (exampleMeasurement site name df lines) = site"
  "Name (DataSource (exampleMeasurement site name df lines)) = name"
  "DateFormat (Data (exampleMeasurement site name df lines)) = df"
  "Value (Data (exampleMeasurement site name df lines)) = lines"
  by (simp_all add: exampleMeasurement_def)

lemma exampleSites_sel:
  "Sites exampleSites ''Place'' = Some ''PLACE_CODE''"
  "Sites exampleSites ''Elsewhere'' = None"
  by (simp_all add: exampleSites_def)

lemma exampleDocument_sel: "Measurement (exampleDocument ms) = ms"
  by (simp add: exampleDocument_def)

lemma example_units: "HilltopUnits ''Air Temperature'' = Some ''t''"
  by (simp add: HilltopUnits_def)

lemma example_Values:
  "Values l exampleParseFloat (exampleMeasurement site name df ['' 27-May-15 21:30:00 2.300000''])
     = ([\<lparr>Timestamp = \<lparr>Unix = 1432762200, Nanosecond = 0, Loc = UTC\<rparr>,
          Reading = 0x4002666666666666\<rparr>], None)"
  "Values l exampleParseFloat (exampleMeasurement site name df [''27-May-15 21:30:00 not-a-number''])
     = ([], Some (NumError ''not-a-number''))"
  by (simp_all only: Values_def exampleMeasurement_sel
        Values_loop_Cons example_line line_result.case Values_loop.simps(1) append_Nil)

lemma example_obs:
  "measurement_obs l exampleParseFloat exampleSites ''NT'' ''M''
       (exampleMeasurement ''Place'' ''Air Temperature'' df ['' 27-May-15 21:30:00 2.300000''])
     = ([\<lparr>NetworkID = ''NT'', SiteID = ''PLACE_CODE'', TypeID = ''t'', MethodID = ''M'',
          DateTime = \<lparr>Unix = 1432762200, Nanosecond = 0, Loc = UTC\<rparr>,
          Value' = 0x4002666666666666, Error = 0\<rparr>], None)"
  "measurement_obs l exampleParseFloat exampleSites ''NT'' ''M''
       (exampleMeasurement ''Place'' ''Air Temperature'' df [''27-May-15 21:30:00 not-a-number''])
     = ([], Some (NumError ''not-a-number''))"
  "measurement_obs l exampleParseFloat exampleSites ''NT'' ''M''
       (exampleMeasurement ''Elsewhere'' ''Air Temperature'' df lines) = ([], None)"
  by (simp_all add: measurement_obs_def exampleMeasurement_sel exampleSites_sel example_Values
        example_units mkObservation_def)

lemma example_readable:
  "readable l exampleParseFloat '' 27-May-15 21:30:00 2.300000''"
  "readable l exampleParseFloat ''27-May-15 21:30:00 4.5''"
  by (simp_all add: readable_def example_tokens example_time exampleParseFloat_def)

lemma example_dateText:
  "dateText 2015 5 27 21 30 0 = ''27-May-15 21:30:00''"
  "validDate 2015 5 27 21 30 0"
  "Date 2015 5 27 21 30 0 0 UTC = \<lparr>Unix = 1432762200, Nanosecond = 0, Loc = UTC\<rparr>"
  "Date 2015 5 27 21 30 0 0 (FixedZone 43200)
     = \<lparr>Unix = 1432719000, Nanosecond = 0, Loc = FixedZone 43200\<rparr>"
  by (simp_all add: dateText_def fmt2_def shortMonthNames_def validDate_def daysIn_def
        daysBefore_def isLeap_def Date_def daysSinceEpoch_def char_of_eq_iff)

section \<open>C1: a file that cannot be opened\<close>

lemma DecodeHilltopFile_decode_error:
  "os_Open file = Inr xmlFile \<Longrightarrow> xml_Decode xmlFile = Inl err \<Longrightarrow>
     DecodeHilltopFile os_Open xml_Decode file = (None, Some err)"
  by (simp add: DecodeHilltopFile_def)

text \<open>
  Claim C1. When the byte stream cannot be opened or read, \<open>DecodeHilltopFile\<close> is to
  fail with the error, and never to return successfully without a document. A failure
  of the decoder, which does the reading, is returned (the lemma above). A failure of
  \<open>os.Open\<close> is not: the function returns \<open>nil, nil\<close>, no document and no error. The
  theorem runs the function on a file that cannot be opened.
\<close>

theorem DecodeHilltopFile_open_failure:
  "DecodeHilltopFile (\<lambda>file. Inl (PathError file)) xml_Decode ''missing.xml'' = (None, None)"
  by (simp add: DecodeHilltopFile_def)

section \<open>C2: a date format other than UTC\<close>

text \<open>
  Claim C2. The claim has the date and time of a measurement whose \<open>DateFormat\<close> is not
  \<open>UTC\<close> read in the local zone of the host, so that the instant depends on the host.
  The program does not do that: \<open>time.Parse\<close> reads a text without zone as UTC on
  every host, and the test on \<open>DateFormat\<close> only presents that instant in UTC again.
  What holds instead: for a measurement whose \<open>DateFormat\<close> is not \<open>UTC\<close>, a line whose
  first two tokens are the text of a valid date and time, whose third token parses as a
  number, and before which no line fails, gives the reading whose timestamp is that
  date and time read as UTC; and \<open>Values\<close> returns the same on hosts with different
  local zones.
\<close>

theorem other_dateFormat_is_UTC_instant:
  assumes "DateFormat (Data m) \<noteq> ''UTC''"
    and "Value (Data m) = xs @ v # ys"
    and "Values local ParseFloat (m\<lparr>Data := (Data m)\<lparr>Value := xs\<rparr>\<rparr>) = (vs1, None)"
    and "tokens v = p0 # p1 # p2 # rest"
    and "p0 @ '' '' @ p1 = dateText year month day hour minute sec"
    and "validDate year month day hour minute sec"
    and "ParseFloat p2 = Inr r"
  shows "length vs1 < length (fst (Values local ParseFloat m))
       \<and> fst (Values local ParseFloat m) ! length vs1
           = \<lparr>Timestamp = Date year month day hour minute sec 0 UTC, Reading = r\<rparr>
       \<and> Values local' ParseFloat m = Values local ParseFloat m"
proof -
  have "Values_line local ParseFloat (DateFormat (Data m)) v
          = Parsed \<lparr>Timestamp = Date year month day hour minute sec 0 UTC, Reading = r\<rparr>"
    using assms(4,5,6,7) by (rule Values_line_dateText)
  from Values_reading_at [OF assms(2,3) this] show ?thesis
    using Values_local [of local' ParseFloat m local] by simp
qed

theorem other_dateFormat_is_UTC_instant_witness:
  "DateFormat (Data (exampleMeasurement ''Place'' ''Air Temperature'' ''NZST''
            [''27-May-15 21:30:00 4.5''])) \<noteq> ''UTC''
   \<and> fst (Values (FixedZone 43200) exampleParseFloat
         (exampleMeasurement ''Place'' ''Air Temperature'' ''NZST''
            [''27-May-15 21:30:00 4.5''])) ! 0
       = \<lparr>Timestamp = \<lparr>Unix = 1432762200, Nanosecond = 0, Loc = UTC\<rparr>,
          Reading = 0x4012000000000000\<rparr>
   \<and> Values (FixedZone (- 3600)) exampleParseFloat
         (exampleMeasurement ''Place'' ''Air Temperature'' ''NZST''
            [''27-May-15 21:30:00 4.5''])
       = Values (FixedZone 43200) exampleParseFloat
         (exampleMeasurement ''Place'' ''Air Temperature'' ''NZST''
            [''27-May-15 21:30:00 4.5''])"
proof -
  let ?m = "exampleMeasurement ''Place'' ''Air Temperature'' ''NZST''
              [''27-May-15 21:30:00 4.5'']"
  have 1: "DateFormat (Data ?m) \<noteq> ''UTC''"
    and 2: "Value (Data ?m) = [] @ ''27-May-15 21:30:00 4.5'' # []"
    by (simp_all add: exampleMeasurement_sel)
  have 3: "Values (FixedZone 43200) exampleParseFloat (?m\<lparr>Data := (Data ?m)\<lparr>Value := []\<rparr>\<rparr>)
             = ([], None)"
    by (simp add: Values_def)
  have 4: "tokens ''27-May-15 21:30:00 4.5'' = ''27-May-15'' # ''21:30:00'' # ''4.5'' # []"
    by (simp add: example_tokens)
  have 5: "''27-May-15'' @ '' '' @ ''21:30:00'' = dateText 2015 5 27 21 30 0"
    by (simp add: example_dateText)
  have 6: "validDate 2015 5 27 21 30 0" by (rule example_dateText)
  have 7: "exampleParseFloat ''4.5'' = Inr 0x4012000000000000"
    by (simp add: exampleParseFloat_def)
  from other_dateFormat_is_UTC_instant [OF 1 2 3 4 5 6 7, of "FixedZone (- 3600)"] 1
  show ?thesis by (simp add: example_dateText)
qed

text \<open>
  The claim fails on a host twelve hours east of UTC, for a measurement with the
  \<open>DateFormat\<close> \<open>NZST\<close> and the line \<open>27-May-15 21:30:00 2.300000\<close>: the timestamp is
  1432762200, which is 21:30 UTC, and not 1432719000, which is 21:30 in the local zone;
  and a host in UTC gets the same result.
\<close>

theorem local_time_counterexample:
  "DateFormat (Data (exampleMeasurement ''Place'' ''Air Temperature'' ''NZST''
            ['' 27-May-15 21:30:00 2.300000''])) \<noteq> ''UTC''
   \<and> Values (FixedZone 43200) exampleParseFloat
         (exampleMeasurement ''Place'' ''Air Temperature'' ''NZST''
            ['' 27-May-15 21:30:00 2.300000''])
       = ([\<lparr>Timestamp = \<lparr>Unix = 1432762200, Nanosecond = 0, Loc = UTC\<rparr>,
            Reading = 0x4002666666666666\<rparr>], None)
   \<and> Date 2015 5 27 21 30 0 0 (FixedZone 43200)
       = \<lparr>Unix = 1432719000, Nanosecond = 0, Loc = FixedZone 43200\<rparr>
   \<and> Date 2015 5 27 21 30 0 0 UTC
       = \<lparr>Unix = 1432762200, Nanosecond = 0, Loc = UTC\<rparr>
   \<and> map (\<lambda>x. instant (Timestamp x))
         (fst (Values (FixedZone 43200) exampleParseFloat
            (exampleMeasurement ''Place'' ''Air Temperature'' ''NZST''
               ['' 27-May-15 21:30:00 2.300000''])))
       \<noteq> [instant (Date 2015 5 27 21 30 0 0 (FixedZone 43200))]
   \<and> Values UTC exampleParseFloat
         (exampleMeasurement ''Place'' ''Air Temperature'' ''NZST''
            ['' 27-May-15 21:30:00 2.300000''])
       = Values (FixedZone 43200) exampleParseFloat
         (exampleMeasurement ''Place'' ''Air Temperature'' ''NZST''
            ['' 27-May-15 21:30:00 2.300000''])"
  by (simp add: example_Values example_dateText exampleMeasurement_sel instant_def)

section \<open>C3: a parse error stops the document\<close>

lemma measurement_obs_fail:
  assumes "Sites sites (SiteName m) = Some s" and "HilltopUnits (Name (DataSource m)) = Some t"
    and "Values l pf m = (vs, Some err)"
  shows "measurement_obs l pf sites network method m = ([], Some err)"
  using assms by (simp add: measurement_obs_def)

text \<open>
  Claim C3. The claim has the assembly fail with the error of the extractor and return
  no observation at all, not even those of earlier measurements. The first half holds
  and the second does not: \<open>Observations\<close> returns, beside the error, the slice it
  has built so far. What holds instead: when \<open>Values\<close> fails on a measurement that
  passed both lookups, \<open>Observations\<close> returns an error; and when the measurements
  before it are assembled without error, it returns that very error of \<open>Values\<close>
  together with exactly their observations, so nothing of the failing measurement
  (not even its lines before the bad one) and nothing of the measurements after it.
\<close>

theorem ParseError_aborts_document:
  assumes "Measurement h = ms1 @ m # ms2"
    and "SiteName m \<in> dom (Sites sites)" and "Name (DataSource m) \<in> dom HilltopUnits"
    and "Values local ParseFloat m = (vs, Some err)"
  shows "snd (Observations local ParseFloat h sites network method) \<noteq> None
       \<and> (\<forall>obs1. Observations local ParseFloat (h\<lparr>Measurement := ms1\<rparr>) sites network method
                    = (obs1, None)
             \<longrightarrow> Observations local ParseFloat h sites network method = (obs1, Some err))"
proof -
  from assms(2,3) obtain s t where
    "Sites sites (SiteName m) = Some s" "HilltopUnits (Name (DataSource m)) = Some t"
    by (auto simp: dom_def)
  from measurement_obs_fail [OF this assms(4)]
  have mo: "measurement_obs local ParseFloat sites network method m = ([], Some err)" .
  obtain r e where r: "Observations_loop local ParseFloat sites network method ms1 [] = (r, e)"
    by (cases "Observations_loop local ParseFloat sites network method ms1 []")
  have "Observations_loop local ParseFloat sites network method (ms1 @ m # ms2) []
          = (r, Some (case e of None \<Rightarrow> err | Some e' \<Rightarrow> e'))"
    using r mo
    by (cases e) (simp_all only: Observations_loop_append Observations_loop_Cons
                    prod.case option.case)
  then show ?thesis using r assms(1) by (simp add: Observations_def)
qed

theorem ParseError_aborts_document_witness:
  "Values UTC exampleParseFloat
        (exampleMeasurement ''Place'' ''Air Temperature'' ''UTC''
           [''27-May-15 21:30:00 not-a-number''])
       = ([], Some (NumError ''not-a-number''))
   \<and> Observations UTC exampleParseFloat
        (exampleDocument
           [exampleMeasurement ''Place'' ''Air Temperature'' ''UTC''
              ['' 27-May-15 21:30:00 2.300000''],
            exampleMeasurement ''Place'' ''Air Temperature'' ''UTC''
              [''27-May-15 21:30:00 not-a-number''],
            exampleMeasurement ''Place'' ''Air Temperature'' ''UTC''
              ['' 27-May-15 21:30:00 2.300000'']])
        exampleSites ''NT'' ''M''
      = ([\<lparr>NetworkID = ''NT'', SiteID = ''PLACE_CODE'', TypeID = ''t'', MethodID = ''M'',
           DateTime = \<lparr>Unix = 1432762200, Nanosecond = 0, Loc = UTC\<rparr>,
           Value' = 0x4002666666666666, Error = 0\<rparr>],
         Some (NumError ''not-a-number''))"
proof -
  let ?good = "exampleMeasurement ''Place'' ''Air Temperature'' ''UTC''
                 ['' 27-May-15 21:30:00 2.300000'']"
  let ?bad = "exampleMeasurement ''Place'' ''Air Temperature'' ''UTC''
                [''27-May-15 21:30:00 not-a-number'']"
  let ?h = "exampleDocument [?good, ?bad, ?good]"
  let ?ob = "\<lparr>NetworkID = ''NT'', SiteID = ''PLACE_CODE'', TypeID = ''t'', MethodID = ''M'',
           DateTime = \<lparr>Unix = 1432762200, Nanosecond = 0, Loc = UTC\<rparr>,
           Value' = 0x4002666666666666, Error = 0\<rparr>"
  have 1: "Measurement ?h = [?good] @ ?bad # [?good]" by (simp add: exampleDocument_sel)
  have 2: "SiteName ?bad \<in> dom (Sites exampleSites)"
    by (simp add: exampleMeasurement_sel exampleSites_sel dom_def)
  have 3: "Name (DataSource ?bad) \<in> dom HilltopUnits"
    by (simp add: exampleMeasurement_sel example_units dom_def)
  have 4: "Values UTC exampleParseFloat ?bad = ([], Some (NumError ''not-a-number''))"
    by (rule example_Values)
  have 5: "Observations UTC exampleParseFloat (?h\<lparr>Measurement := [?good]\<rparr>) exampleSites ''NT'' ''M''
             = ([?ob], None)"
    by (simp add: Observations_def Observations_loop_Cons example_obs
          del: Observations_loop.simps(2))
  from ParseError_aborts_document [OF 1 2 3 4, of "''NT''" "''M''"] 5
  have "Observations UTC exampleParseFloat ?h exampleSites ''NT'' ''M''
          = ([?ob], Some (NumError ''not-a-number''))" by blast
  with 4 show ?thesis by blast
qed

text \<open>
  The claim fails for a document of two measurements, the first with one good line and
  the second with the line \<open>27-May-15 21:30:00 not-a-number\<close>: the error is returned
  and the observation of the first measurement with it.
\<close>

theorem ParseError_aborts_counterexample:
  "SiteName (exampleMeasurement ''Place'' ''Air Temperature'' ''UTC''
               [''27-May-15 21:30:00 not-a-number'']) \<in> dom (Sites exampleSites)
   \<and> Name (DataSource (exampleMeasurement ''Place'' ''Air Temperature'' ''UTC''
               [''27-May-15 21:30:00 not-a-number''])) \<in> dom HilltopUnits
   \<and> Values UTC exampleParseFloat
        (exampleMeasurement ''Place'' ''Air Temperature'' ''UTC''
           [''27-May-15 21:30:00 not-a-number''])
       = ([], Some (NumError ''not-a-number''))
   \<and> Observations UTC exampleParseFloat
        \<lparr>XMLName = ''Hilltop'', Agency = ''A'',
         Measurement =
           [exampleMeasurement ''Place'' ''Air Temperature'' ''UTC''
              ['' 27-May-15 21:30:00 2.300000''],
            exampleMeasurement ''Place'' ''Air Temperature'' ''UTC''
              [''27-May-15 21:30:00 not-a-number'']]\<rparr>
        exampleSites ''NT'' ''M''
      = ([\<lparr>NetworkID = ''NT'', SiteID = ''PLACE_CODE'', TypeID = ''t'', MethodID = ''M'',
           DateTime = \<lparr>Unix = 1432762200, Nanosecond = 0, Loc = UTC\<rparr>,
           Value' = 0x4002666666666666, Error = 0\<rparr>],
         Some (NumError ''not-a-number''))
   \<and> fst (Observations UTC exampleParseFloat
        \<lparr>XMLName = ''Hilltop'', Agency = ''A'',
         Measurement =
           [exampleMeasurement ''Place'' ''Air Temperature'' ''UTC''
              ['' 27-May-15 21:30:00 2.300000''],
            exampleMeasurement ''Place'' ''Air Temperature'' ''UTC''
              [''27-May-15 21:30:00 not-a-number'']]\<rparr>
        exampleSites ''NT'' ''M'') \<noteq> []"
  by (simp add: Observations_def Observations_loop_Cons example_obs example_Values
        exampleMeasurement_sel exampleSites_sel example_units dom_def
        del: Observations_loop.simps(2))

section \<open>C4: unknown identifiers\<close>

lemma measurement_obs_unknown:
  "Sites sites (SiteName m) = None \<or> HilltopUnits (Name (DataSource m)) = None
     \<Longrightarrow> measurement_obs l pf sites network method m = ([], None)"
  by (auto simp: measurement_obs_def split: option.splits)

text \<open>
  Claim C4. A measurement whose site name is not in the site mapping, or whose data
  source name is not in \<open>HilltopUnits\<close>, contributes nothing and raises nothing:
  the document gives the same observations and the same error as the document without
  that measurement, whatever its value lines are, so the measurements before and after
  it are assembled as usual; on its own it gives no observation and no error.
\<close>

theorem unknown_identifier_skipped:
  assumes "SiteName m \<notin> dom (Sites sites) \<or> Name (DataSource m) \<notin> dom HilltopUnits"
  shows "Observations local ParseFloat (h\<lparr>Measurement := ms1 @ m # ms2\<rparr>) sites network method
           = Observations local ParseFloat (h\<lparr>Measurement := ms1 @ ms2\<rparr>) sites network method
         \<and> Observations local ParseFloat (h\<lparr>Measurement := [m]\<rparr>) sites network method = ([], None)"
proof -
  from assms have unk: "Sites sites (SiteName m) = None \<or> HilltopUnits (Name (DataSource m)) = None"
    by (auto simp: dom_def)
  have step: "Observations_loop local ParseFloat sites network method (m # ms) msgs
                = Observations_loop local ParseFloat sites network method ms msgs" for ms msgs
    by (simp only: Observations_loop_Cons measurement_obs_unknown [OF unk] prod.case option.case
          append_Nil2)
  have "Observations_loop local ParseFloat sites network method (ms1 @ m # ms2) []
          = Observations_loop local ParseFloat sites network method (ms1 @ ms2) []"
    by (simp only: Observations_loop_append [of _ _ _ _ _ ms1] step)
  moreover have "Observations_loop local ParseFloat sites network method [m] [] = ([], None)"
    using step [of "[]" "[]"] by (simp only: Observations_loop.simps(1))
  ultimately show ?thesis by (simp add: Observations_def)
qed

theorem unknown_identifier_skipped_witness:
  "SiteName (exampleMeasurement ''Elsewhere'' ''Air Temperature'' ''UTC''
               [''27-May-15 21:30:00 not-a-number'']) \<notin> dom (Sites exampleSites)
   \<and> Name (DataSource (exampleMeasurement ''Place'' ''Soil Moisture'' ''UTC''
               [''27-May-15 21:30:00 not-a-number''])) \<notin> dom HilltopUnits
   \<and> Observations UTC exampleParseFloat
        (exampleDocument
           [exampleMeasurement ''Elsewhere'' ''Air Temperature'' ''UTC''
              [''27-May-15 21:30:00 not-a-number''],
            exampleMeasurement ''Place'' ''Air Temperature'' ''UTC''
              ['' 27-May-15 21:30:00 2.300000'']])
        exampleSites ''NT'' ''M''
      = ([\<lparr>NetworkID = ''NT'', SiteID = ''PLACE_CODE'', TypeID = ''t'', MethodID = ''M'',
           DateTime = \<lparr>Unix = 1432762200, Nanosecond = 0, Loc = UTC\<rparr>,
           Value' = 0x4002666666666666, Error = 0\<rparr>], None)
   \<and> Observations UTC exampleParseFloat
        (exampleDocument
           [exampleMeasurement ''Place'' ''Air Temperature'' ''UTC''
              ['' 27-May-15 21:30:00 2.300000''],
            exampleMeasurement ''Place'' ''Soil Moisture'' ''UTC''
              [''27-May-15 21:30:00 not-a-number'']])
        exampleSites ''NT'' ''M''
      = ([\<lparr>NetworkID = ''NT'', SiteID = ''PLACE_CODE'', TypeID = ''t'', MethodID = ''M'',
           DateTime = \<lparr>Unix = 1432762200, Nanosecond = 0, Loc = UTC\<rparr>,
           Value' = 0x4002666666666666, Error = 0\<rparr>], None)"
proof -
  let ?a = "exampleMeasurement ''Elsewhere'' ''Air Temperature'' ''UTC''
              [''27-May-15 21:30:00 not-a-number'']"
  let ?b = "exampleMeasurement ''Place'' ''Soil Moisture'' ''UTC''
              [''27-May-15 21:30:00 not-a-number'']"
  let ?good = "exampleMeasurement ''Place'' ''Air Temperature'' ''UTC''
              ['' 27-May-15 21:30:00 2.300000'']"
  let ?h = "exampleDocument []"
  let ?ob = "\<lparr>NetworkID = ''NT'', SiteID = ''PLACE_CODE'', TypeID = ''t'', MethodID = ''M'',
           DateTime = \<lparr>Unix = 1432762200, Nanosecond = 0, Loc = UTC\<rparr>,
           Value' = 0x4002666666666666, Error = 0\<rparr>"
  have site: "SiteName ?a \<notin> dom (Sites exampleSites)"
    by (simp add: exampleMeasurement_sel exampleSites_def)
  have name: "Name (DataSource ?b) \<notin> dom HilltopUnits"
    by (simp add: exampleMeasurement_sel HilltopUnits_def dom_def)
  have alone: "Observations UTC exampleParseFloat (?h\<lparr>Measurement := [?good]\<rparr>)
                 exampleSites ''NT'' ''M'' = ([?ob], None)"
    by (simp add: Observations_def Observations_loop_Cons example_obs
          del: Observations_loop.simps(2))
  from site have "SiteName ?a \<notin> dom (Sites exampleSites)
                    \<or> Name (DataSource ?a) \<notin> dom HilltopUnits" by blast
  from unknown_identifier_skipped [OF this, where local = UTC and ParseFloat = exampleParseFloat
         and h = ?h and ?ms1.0 = "[]" and ?ms2.0 = "[?good]" and network = "''NT''",
         of "''M''"]
  have "Observations UTC exampleParseFloat (?h\<lparr>Measurement := [?a, ?good]\<rparr>)
          exampleSites ''NT'' ''M''
          = Observations UTC exampleParseFloat (?h\<lparr>Measurement := [?good]\<rparr>)
              exampleSites ''NT'' ''M''"
    by simp
  with alone have first: "Observations UTC exampleParseFloat (exampleDocument [?a, ?good])
                            exampleSites ''NT'' ''M'' = ([?ob], None)"
    by (simp add: exampleDocument_def)
  from name have "SiteName ?b \<notin> dom (Sites exampleSites)
                    \<or> Name (DataSource ?b) \<notin> dom HilltopUnits" by blast
  from unknown_identifier_skipped [OF this, where local = UTC and ParseFloat = exampleParseFloat
         and h = ?h and ?ms1.0 = "[?good]" and ?ms2.0 = "[]" and network = "''NT''",
         of "''M''"]
  have "Observations UTC exampleParseFloat (?h\<lparr>Measurement := [?good, ?b]\<rparr>)
          exampleSites ''NT'' ''M''
          = Observations UTC exampleParseFloat (?h\<lparr>Measurement := [?good]\<rparr>)
              exampleSites ''NT'' ''M''"
    by simp
  with alone have second: "Observations UTC exampleParseFloat (exampleDocument [?good, ?b])
                             exampleSites ''NT'' ''M'' = ([?ob], None)"
    by (simp add: exampleDocument_def)
  from site name first second show ?thesis by blast
qed

section \<open>C5: short lines and bad lines\<close>

lemma Values_line_short: "length (tokens v) < 3 \<Longrightarrow> Values_line l pf df v = Skipped"
  by (simp add: Values_line_def)

lemma Values_line_bad:
  assumes "3 \<le> length (tokens v)"
    and "isl (time_Parse l (tokens v ! 0 @ '' '' @ tokens v ! 1)) \<or> isl (pf (tokens v ! 2))"
  shows "\<exists>e. Values_line l pf df v = Failed e"
  using assms by (auto simp: Values_line_def split: sum.splits)

lemma Values_loop_skip:
  assumes "Values_line l pf df v = Skipped"
  shows "Values_loop l pf df (xs @ v # ys) acc = Values_loop l pf df (xs @ ys) acc"
  using assms by (simp only: Values_loop_append Values_loop_Cons line_result.case)

lemma Values_loop_fail:
  assumes "Values_line l pf df v = Failed e"
  shows "snd (Values_loop l pf df (xs @ v # ys) acc) \<noteq> None"
proof -
  obtain r e' where r: "Values_loop l pf df xs acc = (r, e')"
    by (cases "Values_loop l pf df xs acc")
  show ?thesis
    using assms r
    by (cases e') (simp_all only: Values_loop_append Values_loop_Cons line_result.case
                     prod.case option.case snd_conv, simp_all)
qed

text \<open>
  Claim C5. The claim counts the tokens of a line after stripping its leading
  whitespace. The program strips leading spaces only, so a line that begins with other
  whitespace can have fewer than three tokens as the claim counts them and three as the
  program does, and then it is not skipped. What holds instead, with the tokens of
  a line as \<open>Values\<close> computes them (the line without its leading spaces, split at
  every single space): a line with fewer than three tokens is skipped, that is
  \<open>Values\<close> returns what it returns without that line; a line with three or more tokens
  whose first two tokens joined by a space do not parse as a time, or whose third
  token does not parse as a number, makes \<open>Values\<close> return an error.
\<close>

theorem short_lines_skipped_bad_lines_fatal:
  assumes "Value (Data m) = xs @ v # ys"
  shows "(length (tokens v) < 3 \<longrightarrow>
            Values local ParseFloat m
              = Values local ParseFloat (m\<lparr>Data := (Data m)\<lparr>Value := xs @ ys\<rparr>\<rparr>))
       \<and> (3 \<le> length (tokens v)
            \<and> (isl (time_Parse local (tokens v ! 0 @ '' '' @ tokens v ! 1))
                 \<or> isl (ParseFloat (tokens v ! 2)))
          \<longrightarrow> snd (Values local ParseFloat m) \<noteq> None)"
proof (intro conjI impI)
  assume "length (tokens v) < 3"
  then have "Values_line local ParseFloat (DateFormat (Data m)) v = Skipped"
    by (rule Values_line_short)
  from Values_loop_skip [OF this] show
    "Values local ParseFloat m = Values local ParseFloat (m\<lparr>Data := (Data m)\<lparr>Value := xs @ ys\<rparr>\<rparr>)"
    using assms by (simp add: Values_def)
next
  assume "3 \<le> length (tokens v)
            \<and> (isl (time_Parse local (tokens v ! 0 @ '' '' @ tokens v ! 1))
                 \<or> isl (ParseFloat (tokens v ! 2)))"
  then obtain e where "Values_line local ParseFloat (DateFormat (Data m)) v = Failed e"
    using Values_line_bad by blast
  from Values_loop_fail [OF this] show "snd (Values local ParseFloat m) \<noteq> None"
    using assms by (simp add: Values_def)
qed

theorem short_lines_skipped_bad_lines_fatal_witness:
  "length (tokens ''   '') < 3
   \<and> Values UTC exampleParseFloat
        (exampleMeasurement ''Place'' ''Air Temperature'' ''UTC''
           [''   '', '' 27-May-15 21:30:00 2.300000''])
       = ([\<lparr>Timestamp = \<lparr>Unix = 1432762200, Nanosecond = 0, Loc = UTC\<rparr>,
            Reading = 0x4002666666666666\<rparr>], None)
   \<and> 3 \<le> length (tokens ''27-May-15 21:30:00 not-a-number'')
   \<and> isl (exampleParseFloat (tokens ''27-May-15 21:30:00 not-a-number'' ! 2))
   \<and> snd (Values UTC exampleParseFloat
        (exampleMeasurement ''Place'' ''Air Temperature'' ''UTC''
           ['' 27-May-15 21:30:00 2.300000'', ''27-May-15 21:30:00 not-a-number''])) \<noteq> None
   \<and> 3 \<le> length (tokens ''27-Foo-15 21:30:00 2.300000'')
   \<and> isl (time_Parse UTC (tokens ''27-Foo-15 21:30:00 2.300000'' ! 0 @ '' ''
                             @ tokens ''27-Foo-15 21:30:00 2.300000'' ! 1))
   \<and> snd (Values UTC exampleParseFloat
        (exampleMeasurement ''Place'' ''Air Temperature'' ''UTC''
           [''27-Foo-15 21:30:00 2.300000''])) \<noteq> None"
proof -
  let ?good = "'' 27-May-15 21:30:00 2.300000''"
  let ?m1 = "exampleMeasurement ''Place'' ''Air Temperature'' ''UTC'' [''   '', ?good]"
  let ?m2 = "exampleMeasurement ''Place'' ''Air Temperature'' ''UTC''
               [?good, ''27-May-15 21:30:00 not-a-number'']"
  let ?m3 = "exampleMeasurement ''Place'' ''Air Temperature'' ''UTC''
               [''27-Foo-15 21:30:00 2.300000'']"
  have short: "length (tokens ''   '') < 3" by (simp add: example_more_tokens)
  have "Value (Data ?m1) = [] @ ''   '' # [?good]" by (simp add: exampleMeasurement_sel)
  from short_lines_skipped_bad_lines_fatal [OF this, of UTC exampleParseFloat] short
  have "Values UTC exampleParseFloat ?m1
          = Values UTC exampleParseFloat (?m1\<lparr>Data := (Data ?m1)\<lparr>Value := [] @ [?good]\<rparr>\<rparr>)"
    by blast
  also have "?m1\<lparr>Data := (Data ?m1)\<lparr>Value := [] @ [?good]\<rparr>\<rparr>
               = exampleMeasurement ''Place'' ''Air Temperature'' ''UTC'' [?good]"
    by (simp add: exampleMeasurement_def)
  finally have a: "Values UTC exampleParseFloat ?m1
       = ([\<lparr>Timestamp = \<lparr>Unix = 1432762200, Nanosecond = 0, Loc = UTC\<rparr>,
            Reading = 0x4002666666666666\<rparr>], None)"
    by (simp only: example_Values)
  have n3: "3 \<le> length (tokens ''27-May-15 21:30:00 not-a-number'')"
    and nbad: "isl (exampleParseFloat (tokens ''27-May-15 21:30:00 not-a-number'' ! 2))"
    by (simp_all add: example_tokens exampleParseFloat_def)
  have "Value (Data ?m2) = [?good] @ ''27-May-15 21:30:00 not-a-number'' # []"
    by (simp add: exampleMeasurement_sel)
  from short_lines_skipped_bad_lines_fatal [OF this, of UTC exampleParseFloat] n3 nbad
  have b: "snd (Values UTC exampleParseFloat ?m2) \<noteq> None" by blast
  have d3: "3 \<le> length (tokens ''27-Foo-15 21:30:00 2.300000'')"
    and dbad: "isl (time_Parse UTC (tokens ''27-Foo-15 21:30:00 2.300000'' ! 0 @ '' ''
                             @ tokens ''27-Foo-15 21:30:00 2.300000'' ! 1))"
    by (simp_all add: example_more_tokens example_bad_time)
  have "Value (Data ?m3) = [] @ ''27-Foo-15 21:30:00 2.300000'' # []"
    by (simp add: exampleMeasurement_sel)
  from short_lines_skipped_bad_lines_fatal [OF this, of UTC exampleParseFloat] d3 dbad
  have c: "snd (Values UTC exampleParseFloat ?m3) \<noteq> None" by blast
  from short a n3 nbad b d3 dbad c show ?thesis by blast
qed

text \<open>
  The claim fails for the blank line made of a line feed and two spaces. Without its
  leading whitespace it is empty, one token, and the claim has it skipped. The program
  keeps the line feed, splits the line into three tokens, fails to parse the first two
  as a time and stops the extraction with the error; with the line in front of a good
  line, the reading of the good line is lost.
\<close>

theorem blank_line_counterexample:
  "length (tokens_after_whitespace [CHR 0x0A, CHR '' '', CHR '' '']) < 3
   \<and> tokens [CHR 0x0A, CHR '' '', CHR '' ''] = [[CHR 0x0A], [], []]
   \<and> Values UTC exampleParseFloat
        (exampleMeasurement ''Place'' ''Air Temperature'' ''UTC''
           [[CHR 0x0A, CHR '' '', CHR '' ''], '' 27-May-15 21:30:00 2.300000''])
       = ([], Some (ParseError [CHR 0x0A, CHR '' '']))
   \<and> Values UTC exampleParseFloat
        (exampleMeasurement ''Place'' ''Air Temperature'' ''UTC''
           [[CHR 0x0A, CHR '' '', CHR '' ''], '' 27-May-15 21:30:00 2.300000''])
       \<noteq> Values UTC exampleParseFloat
        (exampleMeasurement ''Place'' ''Air Temperature'' ''UTC''
           ['' 27-May-15 21:30:00 2.300000''])"
proof -
  have short: "length (tokens_after_whitespace [CHR 0x0A, CHR '' '', CHR '' '']) < 3"
    by (simp add: tokens_after_whitespace_def isWhitespace_def)
  have toks: "tokens [CHR 0x0A, CHR '' '', CHR '' ''] = [[CHR 0x0A], [], []]"
    by (simp add: tokens_def strings_TrimLeft_def)
  have "time_Parse UTC [CHR 0x0A, CHR '' ''] = Inl (ParseError [CHR 0x0A, CHR '' ''])"
    by (simp add: parse_eval)
  then have "Values_line UTC exampleParseFloat ''UTC'' [CHR 0x0A, CHR '' '', CHR '' '']
               = Failed (ParseError [CHR 0x0A, CHR '' ''])"
    by (simp add: Values_line_def toks)
  then have "Values UTC exampleParseFloat
        (exampleMeasurement ''Place'' ''Air Temperature'' ''UTC''
           [[CHR 0x0A, CHR '' '', CHR '' ''], '' 27-May-15 21:30:00 2.300000''])
       = ([], Some (ParseError [CHR 0x0A, CHR '' '']))"
    by (simp only: Values_def exampleMeasurement_sel Values_loop_Cons line_result.case)
  with short toks show ?thesis by (simp add: example_Values)
qed

section \<open>C6: every line of every measurement, in order\<close>

lemma Values_line_readable:
  "readable l pf v \<Longrightarrow> Values_line l pf df v = Parsed (reading_of l pf df v)"
  by (auto simp: readable_def Values_line_def reading_of_def split: sum.splits)

lemma Values_loop_readable:
  "\<forall>v\<in>set ls. readable l pf v \<Longrightarrow>
     Values_loop l pf df ls acc = (acc @ map (reading_of l pf df) ls, None)"
proof (induction ls arbitrary: acc)
  case Nil
  show ?case by simp
next
  case (Cons v ls)
  from Cons.prems have "Values_line l pf df v = Parsed (reading_of l pf df v)"
    by (simp add: Values_line_readable)
  moreover from Cons.prems have "\<forall>v\<in>set ls. readable l pf v" by simp
  ultimately show ?case
    using Cons.IH [of "acc @ [reading_of l pf df v]"]
    by (simp only: Values_loop_Cons line_result.case) simp
qed

lemma measurement_obs_readable:
  assumes "SiteName m \<in> dom (Sites sites)" and "Name (DataSource m) \<in> dom HilltopUnits"
    and "\<forall>v\<in>set (Value (Data m)). readable l pf v"
  shows "measurement_obs l pf sites network method m
           = (observations_of l pf sites network method m, None)"
proof -
  from assms(1,2) obtain s t where
    st: "Sites sites (SiteName m) = Some s" "HilltopUnits (Name (DataSource m)) = Some t"
    by (auto simp: dom_def)
  have "Values l pf m = (map (reading_of l pf (DateFormat (Data m))) (Value (Data m)), None)"
    using Values_loop_readable [OF assms(3), of "DateFormat (Data m)" "[]"]
    by (simp add: Values_def)
  then show ?thesis
    using st by (simp add: measurement_obs_def observations_of_def)
qed

lemma Observations_loop_readable:
  assumes "\<forall>m\<in>set ms. SiteName m \<in> dom (Sites sites) \<and> Name (DataSource m) \<in> dom HilltopUnits
             \<and> (\<forall>v\<in>set (Value (Data m)). readable l pf v)"
  shows "Observations_loop l pf sites network method ms msgs
           = (msgs @ concat (map (observations_of l pf sites network method) ms), None)"
  using assms
proof (induction ms arbitrary: msgs)
  case Nil
  show ?case by simp
next
  case (Cons m ms)
  from Cons.prems have
    "measurement_obs l pf sites network method m = (observations_of l pf sites network method m, None)"
    by (simp add: measurement_obs_readable)
  moreover from Cons.prems have
    "\<forall>m\<in>set ms. SiteName m \<in> dom (Sites sites) \<and> Name (DataSource m) \<in> dom HilltopUnits
             \<and> (\<forall>v\<in>set (Value (Data m)). readable l pf v)" by simp
  ultimately show ?case
    using Cons.IH [of "msgs @ observations_of l pf sites network method m"]
    by (simp only: Observations_loop_Cons prod.case option.case) simp
qed

lemma length_concat_const:
  "\<forall>x\<in>set xs. length (f x) = M \<Longrightarrow> length (concat (map f xs)) = length xs * M"
  by (induction xs) simp_all

text \<open>
  Claim C6. For a document that decodes, whose measurements all have a site name in
  the site mapping and a data source name in \<open>HilltopUnits\<close>, and have \<open>M\<close> value lines
  each, all readable: \<open>Observations\<close> returns no error and the observations of the
  first measurement in the order of its lines, then those of the second, and so on;
  they are as many as the measurements times \<open>M\<close>.
\<close>

theorem N_times_M_observations_in_order:
  assumes "DecodeHilltopFile os_Open xml_Decode file = (Some h, None)"
    and "\<forall>m\<in>set (Measurement h).
           SiteName m \<in> dom (Sites sites) \<and> Name (DataSource m) \<in> dom HilltopUnits"
    and "\<forall>m\<in>set (Measurement h).
           length (Value (Data m)) = M \<and> (\<forall>v\<in>set (Value (Data m)). readable local ParseFloat v)"
  shows "Observations local ParseFloat h sites network method
           = (concat (map (observations_of local ParseFloat sites network method) (Measurement h)),
              None)
       \<and> length (fst (Observations local ParseFloat h sites network method))
           = length (Measurement h) * M"
proof -
  from assms(2,3) have
    "\<forall>m\<in>set (Measurement h). SiteName m \<in> dom (Sites sites)
        \<and> Name (DataSource m) \<in> dom HilltopUnits
        \<and> (\<forall>v\<in>set (Value (Data m)). readable local ParseFloat v)" by blast
  from Observations_loop_readable [OF this, of network _ "[]"]
  have obs: "Observations local ParseFloat h sites network method
           = (concat (map (observations_of local ParseFloat sites network method) (Measurement h)),
              None)"
    by (simp add: Observations_def)
  from assms(3) have
    "\<forall>m\<in>set (Measurement h). length (observations_of local ParseFloat sites network method m) = M"
    by (simp add: observations_of_def)
  from length_concat_const [OF this] obs show ?thesis by simp
qed

theorem N_times_M_observations_in_order_witness:
  "DecodeHilltopFile (\<lambda>file. Inr file)
       (\<lambda>xmlFile. Inr (exampleDocument
           [exampleMeasurement ''Place'' ''Air Temperature'' ''UTC''
              ['' 27-May-15 21:30:00 2.300000'', ''27-May-15 21:30:00 4.5''],
            exampleMeasurement ''Place'' ''Rainfall'' ''NZST''
              [''27-May-15 21:30:00 4.5'', '' 27-May-15 21:30:00 2.300000'']]))
       ''example.xml''
     = (Some (exampleDocument
           [exampleMeasurement ''Place'' ''Air Temperature'' ''UTC''
              ['' 27-May-15 21:30:00 2.300000'', ''27-May-15 21:30:00 4.5''],
            exampleMeasurement ''Place'' ''Rainfall'' ''NZST''
              [''27-May-15 21:30:00 4.5'', '' 27-May-15 21:30:00 2.300000'']]), None)
   \<and> length (fst (Observations UTC exampleParseFloat
        (exampleDocument
           [exampleMeasurement ''Place'' ''Air Temperature'' ''UTC''
              ['' 27-May-15 21:30:00 2.300000'', ''27-May-15 21:30:00 4.5''],
            exampleMeasurement ''Place'' ''Rainfall'' ''NZST''
              [''27-May-15 21:30:00 4.5'', '' 27-May-15 21:30:00 2.300000'']])
        exampleSites ''NT'' ''M'')) = 2 * 2
   \<and> map (\<lambda>ob. (TypeID ob, Value' ob)) (fst (Observations UTC exampleParseFloat
        (exampleDocument
           [exampleMeasurement ''Place'' ''Air Temperature'' ''UTC''
              ['' 27-May-15 21:30:00 2.300000'', ''27-May-15 21:30:00 4.5''],
            exampleMeasurement ''Place'' ''Rainfall'' ''NZST''
              [''27-May-15 21:30:00 4.5'', '' 27-May-15 21:30:00 2.300000'']])
        exampleSites ''NT'' ''M''))
      = [(''t'', 0x4002666666666666), (''t'', 0x4012000000000000),
         (''rn'', 0x4012000000000000), (''rn'', 0x4002666666666666)]
   \<and> snd (Observations UTC exampleParseFloat
        (exampleDocument
           [exampleMeasurement ''Place'' ''Air Temperature'' ''UTC''
              ['' 27-May-15 21:30:00 2.300000'', ''27-May-15 21:30:00 4.5''],
            exampleMeasurement ''Place'' ''Rainfall'' ''NZST''
              [''27-May-15 21:30:00 4.5'', '' 27-May-15 21:30:00 2.300000'']])
        exampleSites ''NT'' ''M'') = None"
proof -
  let ?a = "'' 27-May-15 21:30:00 2.300000''" and ?b = "''27-May-15 21:30:00 4.5''"
  let ?m1 = "exampleMeasurement ''Place'' ''Air Temperature'' ''UTC'' [?a, ?b]"
  let ?m2 = "exampleMeasurement ''Place'' ''Rainfall'' ''NZST'' [?b, ?a]"
  let ?h = "exampleDocument [?m1, ?m2]"
  have 1: "DecodeHilltopFile (\<lambda>file. Inr file) (\<lambda>xmlFile. Inr ?h) ''example.xml'' = (Some ?h, None)"
    by (simp add: DecodeHilltopFile_def)
  have rn: "HilltopUnits ''Rainfall'' = Some ''rn''" by (simp add: HilltopUnits_def)
  have 2: "\<forall>m\<in>set (Measurement ?h).
             SiteName m \<in> dom (Sites exampleSites) \<and> Name (DataSource m) \<in> dom HilltopUnits"
    by (simp add: exampleDocument_sel exampleMeasurement_sel exampleSites_sel example_units rn dom_def)
  have 3: "\<forall>m\<in>set (Measurement ?h).
             length (Value (Data m)) = 2
             \<and> (\<forall>v\<in>set (Value (Data m)). readable UTC exampleParseFloat v)"
    by (simp add: exampleDocument_sel exampleMeasurement_sel example_readable)
  have ra: "reading_of UTC exampleParseFloat df ?a
              = \<lparr>Timestamp = \<lparr>Unix = 1432762200, Nanosecond = 0, Loc = UTC\<rparr>,
                 Reading = 0x4002666666666666\<rparr>"
    and rb: "reading_of UTC exampleParseFloat df ?b
              = \<lparr>Timestamp = \<lparr>Unix = 1432762200, Nanosecond = 0, Loc = UTC\<rparr>,
                 Reading = 0x4012000000000000\<rparr>" for df
    by (simp_all add: reading_of_def Let_def example_tokens example_time exampleParseFloat_def
          Time_UTC_def)
  from N_times_M_observations_in_order [OF 1 2 3, of "''NT''" "''M''"]
  have "Observations UTC exampleParseFloat ?h exampleSites ''NT'' ''M''
          = (concat (map (observations_of UTC exampleParseFloat exampleSites ''NT'' ''M'')
                      (Measurement ?h)), None)"
    and len: "length (fst (Observations UTC exampleParseFloat ?h exampleSites ''NT'' ''M''))
          = length (Measurement ?h) * 2"
    by blast+
  then have "map (\<lambda>ob. (TypeID ob, Value' ob))
               (fst (Observations UTC exampleParseFloat ?h exampleSites ''NT'' ''M''))
      = [(''t'', 0x4002666666666666), (''t'', 0x4012000000000000),
         (''rn'', 0x4012000000000000), (''rn'', 0x4002666666666666)]"
    and "snd (Observations UTC exampleParseFloat ?h exampleSites ''NT'' ''M'') = None"
    by (simp_all add: exampleDocument_sel observations_of_def exampleMeasurement_sel
          exampleSites_sel example_units rn ra rb mkObservation_def)
  with 1 len show ?thesis by (simp add: exampleDocument_sel)
qed

section \<open>C7: the date format UTC\<close>



section \<open>C8: leading spaces\<close>

lemma tokens_leading_spaces: "tokens (replicate n (CHR '' '') @ v) = tokens v"
  by (induction n) (simp_all add: tokens_def strings_TrimLeft_def)

lemma Values_line_leading_spaces:
  "Values_line l pf df (replicate n (CHR '' '') @ v) = Values_line l pf df v"
  by (simp only: Values_line_def tokens_leading_spaces)

lemma Values_loop_same_line:
  assumes "Values_line l pf df v = Values_line l pf df w"
  shows "Values_loop l pf df (xs @ v # ys) acc = Values_loop l pf df (xs @ w # ys) acc"
  using assms by (simp only: Values_loop_append Values_loop_Cons)

text \<open>
  Claim C8. The claim has every kind of leading whitespace stripped. The program
  strips spaces only: the cutset of \<open>strings.TrimLeft\<close> is the one character space.
  What holds instead: a line preceded by any number of spaces is extracted as the line
  without them; nothing is said of other whitespace.
\<close>

theorem leading_spaces_stripped:
  "Values local ParseFloat (m\<lparr>Data := (Data m)\<lparr>Value := xs @ (replicate n (CHR '' '') @ v) # ys\<rparr>\<rparr>)
     = Values local ParseFloat (m\<lparr>Data := (Data m)\<lparr>Value := xs @ v # ys\<rparr>\<rparr>)"
  using Values_loop_same_line [OF Values_line_leading_spaces]
  by (simp add: Values_def)

theorem leading_spaces_stripped_witness:
  "Values UTC exampleParseFloat
     (exampleMeasurement ''Place'' ''Air Temperature'' ''UTC'' [''    27-May-15 21:30:00 4.5''])
   = ([\<lparr>Timestamp = \<lparr>Unix = 1432762200, Nanosecond = 0, Loc = UTC\<rparr>,
        Reading = 0x4012000000000000\<rparr>], None)"
proof -
  let ?m = "exampleMeasurement ''Place'' ''Air Temperature'' ''UTC'' []"
  have "Values UTC exampleParseFloat
          (?m\<lparr>Data := (Data ?m)\<lparr>Value := [] @ (replicate 4 (CHR '' '') @ ''27-May-15 21:30:00 4.5'') # []\<rparr>\<rparr>)
        = Values UTC exampleParseFloat
          (?m\<lparr>Data := (Data ?m)\<lparr>Value := [] @ ''27-May-15 21:30:00 4.5'' # []\<rparr>\<rparr>)"
    by (rule leading_spaces_stripped)
  moreover have "?m\<lparr>Data := (Data ?m)\<lparr>Value := [] @ (replicate 4 (CHR '' '') @ ''27-May-15 21:30:00 4.5'') # []\<rparr>\<rparr>
        = exampleMeasurement ''Place'' ''Air Temperature'' ''UTC'' [''    27-May-15 21:30:00 4.5'']"
    by (simp add: exampleMeasurement_def numeral_eq_Suc)
  moreover have "Values UTC exampleParseFloat (?m\<lparr>Data := (Data ?m)\<lparr>Value := [] @ ''27-May-15 21:30:00 4.5'' # []\<rparr>\<rparr>)
        = ([\<lparr>Timestamp = \<lparr>Unix = 1432762200, Nanosecond = 0, Loc = UTC\<rparr>,
        Reading = 0x4012000000000000\<rparr>], None)"
    by (simp add: Values_def exampleMeasurement_def Values_loop_Cons example_line
          del: Values_loop.simps(2))
  ultimately show ?thesis by simp
qed

text \<open>
  The claim fails for a leading tab: the tab stays in the first token, the time does
  not parse and the extraction fails, where the line without the tab gives a reading.
\<close>

theorem leading_tab_counterexample:
  "Values UTC exampleParseFloat
      (exampleMeasurement ''Place'' ''Air Temperature'' ''UTC''
         [CHR 0x09 # ''27-May-15 21:30:00 2.300000''])
     \<noteq> Values UTC exampleParseFloat
      (exampleMeasurement ''Place'' ''Air Temperature'' ''UTC''
         [''27-May-15 21:30:00 2.300000''])
   \<and> Values UTC exampleParseFloat
      (exampleMeasurement ''Place'' ''Air Temperature'' ''UTC''
         [CHR 0x09 # ''27-May-15 21:30:00 2.300000''])
     = ([], Some (ParseError (CHR 0x09 # ''27-May-15 21:30:00'')))
   \<and> Values UTC exampleParseFloat
      (exampleMeasurement ''Place'' ''Air Temperature'' ''UTC''
         [''27-May-15 21:30:00 2.300000''])
     = ([\<lparr>Timestamp = \<lparr>Unix = 1432762200, Nanosecond = 0, Loc = UTC\<rparr>,
          Reading = 0x4002666666666666\<rparr>], None)"
proof -
  have "Values_line UTC exampleParseFloat ''UTC'' ''27-May-15 21:30:00 2.300000''
          = Values_line UTC exampleParseFloat ''UTC'' '' 27-May-15 21:30:00 2.300000''"
    using Values_line_leading_spaces [of UTC exampleParseFloat "''UTC''" 1 "''27-May-15 21:30:00 2.300000''"]
    by simp
  then have
    "Values UTC exampleParseFloat
       (exampleMeasurement ''Place'' ''Air Temperature'' ''UTC''
          [CHR 0x09 # ''27-May-15 21:30:00 2.300000''])
     = ([], Some (ParseError (CHR 0x09 # ''27-May-15 21:30:00'')))"
    and "Values UTC exampleParseFloat
       (exampleMeasurement ''Place'' ''Air Temperature'' ''UTC''
          [''27-May-15 21:30:00 2.300000''])
     = ([\<lparr>Timestamp = \<lparr>Unix = 1432762200, Nanosecond = 0, Loc = UTC\<rparr>,
          Reading = 0x4002666666666666\<rparr>], None)"
    by (simp_all only: Values_def exampleMeasurement_sel Values_loop_Cons example_line
          example_tab_line line_result.case Values_loop.simps(1) append_Nil)
  then show ?thesis by simp
qed

section \<open>C9: the error estimate\<close>

lemma loop_errors_zero:
  "\<forall>ob\<in>set msgs. Error ob = 0 \<Longrightarrow>
     \<forall>ob\<in>set (fst (Observations_loop l pf sites network method ms msgs)). Error ob = 0"
proof (induction ms arbitrary: msgs)
  case Nil
  then show ?case by simp
next
  case (Cons m ms)
  obtain os e where mo: "measurement_obs l pf sites network method m = (os, e)"
    by (cases "measurement_obs l pf sites network method m")
  have os: "\<forall>ob\<in>set os. Error ob = 0"
    using mo by (auto simp: measurement_obs_def mkObservation_def split: option.splits prod.splits)
  show ?case
  proof (cases e)
    case None
    have "\<forall>ob\<in>set (msgs @ os). Error ob = 0" using Cons.prems os by auto
    from Cons.IH [OF this] show ?thesis
      using mo None by (simp only: Observations_loop_Cons prod.case option.case)
  next
    case (Some err)
    then show ?thesis using mo Cons.prems
      by (simp only: Observations_loop_Cons prod.case option.case fst_conv)
  qed
qed

text \<open>
  Claim C9. Every observation that \<open>Observations\<close> returns, for any document and any
  site mapping, and whether or not an error is returned beside them, has the \<open>Error\<close>
  field 0.0.
\<close>

theorem errorEstimate_zero:
  "\<forall>ob\<in>set (fst (Observations local ParseFloat h sites network method)). Error ob = 0"
  unfolding Observations_def by (rule loop_errors_zero) simp

theorem errorEstimate_zero_witness:
  "fst (Observations UTC exampleParseFloat
          \<lparr>XMLName = ''Hilltop'', Agency = ''A'',
           Measurement = [exampleMeasurement ''Place'' ''Air Temperature'' ''UTC''
                            ['' 27-May-15 21:30:00 2.300000'']]\<rparr>
          exampleSites ''NT'' ''M'') \<noteq> []
   \<and> Error (hd (fst (Observations UTC exampleParseFloat
          \<lparr>XMLName = ''Hilltop'', Agency = ''A'',
           Measurement = [exampleMeasurement ''Place'' ''Air Temperature'' ''UTC''
                            ['' 27-May-15 21:30:00 2.300000'']]\<rparr>
          exampleSites ''NT'' ''M''))) = 0"
proof -
  let ?h = "\<lparr>XMLName = ''Hilltop'', Agency = ''A'',
           Measurement = [exampleMeasurement ''Place'' ''Air Temperature'' ''UTC''
                            ['' 27-May-15 21:30:00 2.300000'']]\<rparr>"
  let ?r = "fst (Observations UTC exampleParseFloat ?h exampleSites ''NT'' ''M'')"
  have ne: "?r \<noteq> []"
    by (simp add: Observations_def Observations_loop_Cons example_obs del: Observations_loop.simps(2))
  then have "hd ?r \<in> set ?r" by simp
  with errorEstimate_zero [of UTC exampleParseFloat ?h exampleSites "''NT''" "''M''"]
  have "Error (hd ?r) = 0" by blast
  with ne show ?thesis by blast
qed

section \<open>C10: the date format does not change the instant\<close>

lemma Values_line_dateFormat:
  "(Values_line l pf d1 v = Skipped \<and> Values_line l pf d2 v = Skipped)
   \<or> (\<exists>e. Values_line l pf d1 v = Failed e \<and> Values_line l pf d2 v = Failed e)
   \<or> (\<exists>x1 x2. Values_line l pf d1 v = Parsed x1 \<and> Values_line l pf d2 v = Parsed x2
          \<and> instant (Timestamp x1) = instant (Timestamp x2) \<and> Reading x1 = Reading x2)"
  by (simp add: Values_line_def Time_UTC_def instant_def split: sum.splits)

lemma Values_loop_dateFormat:
  "map (\<lambda>x. (instant (Timestamp x), Reading x)) (fst (Values_loop l pf d1 vs []))
     = map (\<lambda>x. (instant (Timestamp x), Reading x)) (fst (Values_loop l pf d2 vs []))
   \<and> snd (Values_loop l pf d1 vs []) = snd (Values_loop l pf d2 vs [])"
proof (induction vs)
  case Nil
  show ?case by simp
next
  case (Cons v vs)
  from Values_line_dateFormat [of l pf d1 v d2] show ?case
  proof (elim disjE conjE exE)
    assume "Values_line l pf d1 v = Skipped" "Values_line l pf d2 v = Skipped"
    then show ?thesis using Cons.IH by (simp only: Values_loop_Cons line_result.case)
  next
    fix e assume "Values_line l pf d1 v = Failed e" "Values_line l pf d2 v = Failed e"
    then show ?thesis by (simp only: Values_loop_Cons line_result.case)
  next
    fix x1 x2
    assume p: "Values_line l pf d1 v = Parsed x1" "Values_line l pf d2 v = Parsed x2"
      and eq: "instant (Timestamp x1) = instant (Timestamp x2)" "Reading x1 = Reading x2"
    have "Values_loop l pf d1 (v # vs) [] = Values_loop l pf d1 vs [x1]"
      and "Values_loop l pf d2 (v # vs) [] = Values_loop l pf d2 vs [x2]"
      using p by (simp_all only: Values_loop_Cons line_result.case append_Nil)
    then show ?thesis
      using Cons.IH eq Values_loop_acc [of l pf d1 vs "[x1]"] Values_loop_acc [of l pf d2 vs "[x2]"]
      by simp
  qed
qed

text \<open>
  Claim C10. For one measurement and two values of its \<open>DateFormat\<close>, \<open>Values\<close> returns
  readings with the same instants and the same numbers, in the same order, and the
  same error.
\<close>

theorem dateFormat_same_instants:
  "map (\<lambda>x. (instant (Timestamp x), Reading x))
       (fst (Values local ParseFloat (m\<lparr>Data := (Data m)\<lparr>DateFormat := d1\<rparr>\<rparr>)))
     = map (\<lambda>x. (instant (Timestamp x), Reading x))
         (fst (Values local ParseFloat (m\<lparr>Data := (Data m)\<lparr>DateFormat := d2\<rparr>\<rparr>)))
   \<and> snd (Values local ParseFloat (m\<lparr>Data := (Data m)\<lparr>DateFormat := d1\<rparr>\<rparr>))
     = snd (Values local ParseFloat (m\<lparr>Data := (Data m)\<lparr>DateFormat := d2\<rparr>\<rparr>))"
  using Values_loop_dateFormat [of l pf d1 "Value (Data m)" d2 for l pf]
  by (simp add: Values_def)

theorem dateFormat_same_instants_witness:
  "map (\<lambda>x. (instant (Timestamp x), Reading x))
       (fst (Values (FixedZone 43200) exampleParseFloat
          (exampleMeasurement ''Place'' ''Air Temperature'' ''UTC''
             ['' 27-May-15 21:30:00 2.300000''])))
     = [((1432762200, 0), 0x4002666666666666)]
   \<and> map (\<lambda>x. (instant (Timestamp x), Reading x))
       (fst (Values (FixedZone 43200) exampleParseFloat
          (exampleMeasurement ''Place'' ''Air Temperature'' ''NZST''
             ['' 27-May-15 21:30:00 2.300000''])))
     = [((1432762200, 0), 0x4002666666666666)]"
proof -
  let ?m = "exampleMeasurement ''Place'' ''Air Temperature'' ''UTC''
              ['' 27-May-15 21:30:00 2.300000'']"
  have u: "?m\<lparr>Data := (Data ?m)\<lparr>DateFormat := ''UTC''\<rparr>\<rparr> = ?m"
    and n: "?m\<lparr>Data := (Data ?m)\<lparr>DateFormat := ''NZST''\<rparr>\<rparr>
              = exampleMeasurement ''Place'' ''Air Temperature'' ''NZST''
                  ['' 27-May-15 21:30:00 2.300000'']"
    by (simp_all add: exampleMeasurement_def)
  have "map (\<lambda>x. (instant (Timestamp x), Reading x))
          (fst (Values (FixedZone 43200) exampleParseFloat ?m))
          = [((1432762200, 0), 0x4002666666666666)]"
    by (simp add: example_Values instant_def)
  with dateFormat_same_instants [where local = "FixedZone 43200" and ParseFloat = exampleParseFloat
         and m = ?m and ?d1.0 = "''UTC''" and ?d2.0 = "''NZST''"]
  show ?thesis by (simp only: u n)
qed

end
